theory Spec2Isabelle
  imports Main "HOL-Library.Word" "HOL-Library.Sublist"
begin

section \<open>Python values shared by both scripts\<close>

text \<open>
  A Python \<open>str\<close> is modelled by the \<open>string\<close> of its UTF-8 code units, so an ASCII
  character is one \<open>char\<close> and the three non-ASCII glyphs of the messages are three
  \<open>char\<close>s each. Python \<open>bytes\<close> are lists of 8-bit words.
\<close>

type_synonym byte = "8 word"
type_synonym bytes = "byte list"

abbreviation squote :: char where "squote \<equiv> CHR 0x27"
abbreviation dquote :: char where "dquote \<equiv> CHR 0x22"
abbreviation backslash :: char where "backslash \<equiv> CHR 0x5C"
abbreviation newline :: char where "newline \<equiv> CHR 0x0A"

definition bullet :: string where
  "bullet = [CHR 0xE2, CHR 0x80, CHR 0xA2]"

definition arrow :: string where
  "arrow = [CHR 0xE2, CHR 0x86, CHR 0x92]"

definition check_mark :: string where
  "check_mark = [CHR 0xE2, CHR 0x9C, CHR 0x85]"

subsection \<open>\<open>str.strip\<close>, \<open>str.rstrip\<close>, \<open>str.lower\<close>, \<open>str.startswith\<close>\<close>

text \<open>
  The 29 characters for which \<open>str.isspace\<close> holds, each as its UTF-8 encoding:
  U+0009..U+000D, U+001C..U+001F, U+0020, U+0085, U+00A0, U+1680, U+2000..U+200A,
  U+2028, U+2029, U+202F, U+205F, U+3000.
\<close>

definition py_whitespace :: "string list" where
  "py_whitespace =
    [[CHR 0x09], [CHR 0x0A], [CHR 0x0B], [CHR 0x0C], [CHR 0x0D],
     [CHR 0x1C], [CHR 0x1D], [CHR 0x1E], [CHR 0x1F], [CHR 0x20],
     [CHR 0xC2, CHR 0x85], [CHR 0xC2, CHR 0xA0],
     [CHR 0xE1, CHR 0x9A, CHR 0x80],
     [CHR 0xE2, CHR 0x80, CHR 0x80], [CHR 0xE2, CHR 0x80, CHR 0x81],
     [CHR 0xE2, CHR 0x80, CHR 0x82], [CHR 0xE2, CHR 0x80, CHR 0x83],
     [CHR 0xE2, CHR 0x80, CHR 0x84], [CHR 0xE2, CHR 0x80, CHR 0x85],
     [CHR 0xE2, CHR 0x80, CHR 0x86], [CHR 0xE2, CHR 0x80, CHR 0x87],
     [CHR 0xE2, CHR 0x80, CHR 0x88], [CHR 0xE2, CHR 0x80, CHR 0x89],
     [CHR 0xE2, CHR 0x80, CHR 0x8A],
     [CHR 0xE2, CHR 0x80, CHR 0xA8], [CHR 0xE2, CHR 0x80, CHR 0xA9],
     [CHR 0xE2, CHR 0x80, CHR 0xAF], [CHR 0xE2, CHR 0x81, CHR 0x9F],
     [CHR 0xE3, CHR 0x80, CHR 0x80]]"

text \<open>The white-space character a string starts with, and the one it ends with.\<close>

definition leading_space :: "string \<Rightarrow> string option" where
  "leading_space s = List.find (\<lambda>w. prefix w s) py_whitespace"

definition trailing_space :: "string \<Rightarrow> string option" where
  "trailing_space s = List.find (\<lambda>w. suffix w s) py_whitespace"

lemma py_whitespace_nonempty: "w \<in> set py_whitespace \<Longrightarrow> w \<noteq> []"
  by (auto simp: py_whitespace_def)

lemma leading_space_shorter:
  "leading_space s = Some w \<Longrightarrow> length (drop (length w) s) < length s"
proof -
  assume "leading_space s = Some w"
  then have "w \<in> set py_whitespace" and "prefix w s"
    by (auto simp: leading_space_def find_Some_iff)
  then have "w \<noteq> []" and "length w \<le> length s"
    by (auto simp: py_whitespace_nonempty prefix_length_le)
  then show ?thesis by (cases w) auto
qed

lemma trailing_space_shorter:
  "trailing_space s = Some w \<Longrightarrow> length (take (length s - length w) s) < length s"
proof -
  assume "trailing_space s = Some w"
  then have "w \<in> set py_whitespace" and "suffix w s"
    by (auto simp: trailing_space_def find_Some_iff)
  then have "w \<noteq> []" and "length w \<le> length s"
    by (auto simp: py_whitespace_nonempty suffix_length_le)
  then show ?thesis by (cases w) auto
qed

function lstrip :: "string \<Rightarrow> string" where
  "lstrip s = (case leading_space s of None \<Rightarrow> s | Some w \<Rightarrow> lstrip (drop (length w) s))"
  by pat_completeness auto
termination
  by (relation "measure length") (auto dest: leading_space_shorter)

function rstrip :: "string \<Rightarrow> string" where
  "rstrip s =
     (case trailing_space s of None \<Rightarrow> s
      | Some w \<Rightarrow> rstrip (take (length s - length w) s))"
  by pat_completeness auto
termination
  by (relation "measure length") (auto dest: trailing_space_shorter)

declare lstrip.simps [simp del] rstrip.simps [simp del]

definition strip :: "string \<Rightarrow> string" where
  "strip s = rstrip (lstrip s)"

text \<open>\<open>s.rstrip("/")\<close>: every trailing slash goes.\<close>

definition rstrip_slash :: "string \<Rightarrow> string" where
  "rstrip_slash s = rev (dropWhile (\<lambda>c. c = CHR ''/'') (rev s))"

text \<open>
  \<open>str.lower\<close> on the ASCII letters. The one use of \<open>lower\<close> in the program compares
  the result with two ASCII literals without \<open>k\<close>; no character outside ASCII lowers
  to an ASCII character other than \<open>k\<close>, so the comparison is decided by this function.
\<close>

definition lower_char :: "char \<Rightarrow> char" where
  "lower_char c =
     (let n = (of_char c :: nat) in if 65 \<le> n \<and> n \<le> 90 then char_of (n + 32) else c)"

definition lower :: "string \<Rightarrow> string" where
  "lower s = map lower_char s"

definition startswith :: "string \<Rightarrow> string list \<Rightarrow> bool" where
  "startswith s ps = list_ex (\<lambda>p. prefix p s) ps"

subsection \<open>\<open>str\<close> of an integer, \<open>repr\<close> of a string and of a list of strings\<close>

fun digits :: "nat \<Rightarrow> string" where
  "digits n =
     (if n < 10 then [char_of (48 + n)] else digits (n div 10) @ [char_of (48 + n mod 10)])"

declare digits.simps [simp del]

definition str_int :: "int \<Rightarrow> string" where
  "str_int i = (if i < 0 then CHR ''-'' # digits (nat (- i)) else digits (nat i))"

definition hex_digit :: "nat \<Rightarrow> char" where
  "hex_digit n = (if n < 10 then char_of (48 + n) else char_of (87 + n))"

text \<open>
  \<open>repr\<close> of a \<open>str\<close>: double quotes when the text has a single quote and no double
  quote, single quotes otherwise; backslash, the chosen quote, tab, newline and carriage
  return are escaped, the other control characters are written \<open>\xNN\<close>.
\<close>

definition repr_char :: "char \<Rightarrow> char \<Rightarrow> string" where
  "repr_char q c =
     (let n = (of_char c :: nat) in
      if c = backslash then [backslash, backslash]
      else if c = q then [backslash, q]
      else if n = 9 then [backslash, CHR ''t'']
      else if n = 10 then [backslash, CHR ''n'']
      else if n = 13 then [backslash, CHR ''r'']
      else if n < 32 \<or> n = 127 then [backslash, CHR ''x'', hex_digit (n div 16), hex_digit (n mod 16)]
      else [c])"

text \<open>
  A character outside ASCII is kept when \<open>str.isprintable\<close> holds of it and is escaped
  otherwise: \<open>\xNN\<close> below U+0100, \<open>\uNNNN\<close> below U+10000, \<open>\UNNNNNNNN\<close> from there,
  in lower-case hexadecimal digits. Which characters are printable is decided by the
  Unicode database of the interpreter: it is a parameter here, a predicate on the code
  points from U+0080. The units of the text are read as UTF-8 sequences; a lone surrogate,
  which a \<open>str\<close> can hold, is taken in the three-unit form of its code point. Units that
  are not the form of any code point stand for no character of a \<open>str\<close> and are kept.
\<close>

definition nibble :: "nat \<Rightarrow> nat \<Rightarrow> char" where
  "nibble n i = hex_digit (n div 16 ^ i mod 16)"

definition escape :: "nat \<Rightarrow> string" where
  "escape cp =
     (if cp < 0x100 then [backslash, CHR ''x'', nibble cp 1, nibble cp 0]
      else if cp < 0x10000 then
        [backslash, CHR ''u'', nibble cp 3, nibble cp 2, nibble cp 1, nibble cp 0]
      else [backslash, CHR ''U'', nibble cp 7, nibble cp 6, nibble cp 5, nibble cp 4,
            nibble cp 3, nibble cp 2, nibble cp 1, nibble cp 0])"

definition repr_wide :: "(nat \<Rightarrow> bool) \<Rightarrow> nat \<Rightarrow> string \<Rightarrow> string" where
  "repr_wide printable cp units = (if printable cp then units else escape cp)"

definition tail_unit :: "char \<Rightarrow> bool" where
  "tail_unit c = (0x80 \<le> (of_char c :: nat) \<and> (of_char c :: nat) \<le> 0xBF)"

definition low6 :: "char \<Rightarrow> nat" where
  "low6 c = of_char c - 0x80"

fun repr_units :: "(nat \<Rightarrow> bool) \<Rightarrow> char \<Rightarrow> string \<Rightarrow> string" where
  "repr_units printable q [] = []"
| "repr_units printable q (c # r) =
     (let a = (of_char c :: nat) in
      if 0xC2 \<le> a \<and> a \<le> 0xDF then
        (case r of
           c2 # r2 \<Rightarrow>
             if tail_unit c2
             then repr_wide printable ((a - 0xC0) * 64 + low6 c2) [c, c2]
                  @ repr_units printable q r2
             else c # repr_units printable q r
         | _ \<Rightarrow> c # repr_units printable q r)
      else if 0xE0 \<le> a \<and> a \<le> 0xEF then
        (case r of
           c2 # c3 # r3 \<Rightarrow>
             if tail_unit c2 \<and> tail_unit c3 \<and> (if a = 0xE0 then 0x20 \<le> low6 c2 else True)
             then repr_wide printable ((a - 0xE0) * 4096 + low6 c2 * 64 + low6 c3) [c, c2, c3]
                  @ repr_units printable q r3
             else c # repr_units printable q r
         | _ \<Rightarrow> c # repr_units printable q r)
      else if 0xF0 \<le> a \<and> a \<le> 0xF4 then
        (case r of
           c2 # c3 # c4 # r4 \<Rightarrow>
             if tail_unit c2 \<and> tail_unit c3 \<and> tail_unit c4
                \<and> (if a = 0xF0 then 0x10 \<le> low6 c2 else True)
                \<and> (if a = 0xF4 then low6 c2 < 0x10 else True)
             then repr_wide printable
                    ((a - 0xF0) * 262144 + low6 c2 * 4096 + low6 c3 * 64 + low6 c4)
                    [c, c2, c3, c4]
                  @ repr_units printable q r4
             else c # repr_units printable q r
         | _ \<Rightarrow> c # repr_units printable q r)
      else repr_char q c @ repr_units printable q r)"

definition repr_str :: "(nat \<Rightarrow> bool) \<Rightarrow> string \<Rightarrow> string" where
  "repr_str printable s =
     (let q = (if squote \<in> set s \<and> dquote \<notin> set s then dquote else squote)
      in q # repr_units printable q s @ [q])"

fun join :: "string \<Rightarrow> string list \<Rightarrow> string" where
  "join sep [] = []"
| "join sep [x] = x"
| "join sep (x # y # ys) = x @ sep @ join sep (y # ys)"

definition repr_str_list :: "(nat \<Rightarrow> bool) \<Rightarrow> string list \<Rightarrow> string" where
  "repr_str_list printable xs = ''['' @ join '', '' (map (repr_str printable) xs) @ '']''"

subsection \<open>\<open>bytes.decode\<close>\<close>

text \<open>
  \<open>bs.decode()\<close> is the strict UTF-8 codec: it raises \<open>UnicodeDecodeError\<close> on an
  ill-formed sequence (a stray continuation byte, an overlong form, a surrogate, a code
  point beyond U+10FFFF, a truncated sequence). On well-formed input the result, as UTF-8
  code units, is the input.
\<close>

definition cont :: "nat \<Rightarrow> bool" where
  "cont b = (0x80 \<le> b \<and> b \<le> 0xBF)"

fun utf8_wf :: "nat list \<Rightarrow> bool" where
  "utf8_wf [] = True"
| "utf8_wf (a # r) =
     (if a < 0x80 then utf8_wf r
      else if 0xC2 \<le> a \<and> a \<le> 0xDF then
        (case r of b # r' \<Rightarrow> cont b \<and> utf8_wf r' | _ \<Rightarrow> False)
      else if 0xE0 \<le> a \<and> a \<le> 0xEF then
        (case r of b # c # r' \<Rightarrow>
           cont b \<and> cont c \<and> (if a = 0xE0 then 0xA0 \<le> b else True)
           \<and> (if a = 0xED then b \<le> 0x9F else True) \<and> utf8_wf r'
         | _ \<Rightarrow> False)
      else if 0xF0 \<le> a \<and> a \<le> 0xF4 then
        (case r of b # c # d # r' \<Rightarrow>
           cont b \<and> cont c \<and> cont d \<and> (if a = 0xF0 then 0x90 \<le> b else True)
           \<and> (if a = 0xF4 then b \<le> 0x8F else True) \<and> utf8_wf r'
         | _ \<Rightarrow> False)
      else False)"

definition decode :: "bytes \<Rightarrow> string option" where
  "decode bs = (if utf8_wf (map unat bs) then Some (map (\<lambda>b. char_of (unat b)) bs) else None)"

definition decode_ascii :: "bytes \<Rightarrow> string option" where
  "decode_ascii bs =
     (if list_all (\<lambda>b. unat b < 128) bs then Some (map (\<lambda>b. char_of (unat b)) bs) else None)"

text \<open>Text written to a file is encoded as UTF-8: the code units themselves.\<close>

definition encode :: "string \<Rightarrow> bytes" where
  "encode s = map of_char s"

subsection \<open>\<open>base64.b64encode\<close> and its inverse\<close>

text \<open>
  \<open>base64.b64encode\<close> (RFC 4648, standard alphabet, \<open>=\<close> padding, no line breaks):
  three bytes become four characters of the alphabet \<open>A-Z a-z 0-9 + /\<close>.
\<close>

definition b64_code :: "nat \<Rightarrow> nat" where
  "b64_code n =
     (if n < 26 then 65 + n else if n < 52 then 71 + n else if n < 62 then n - 4
      else if n = 62 then 43 else 47)"

definition b64_char :: "nat \<Rightarrow> byte" where
  "b64_char n = of_nat (b64_code n)"

fun b64encode :: "bytes \<Rightarrow> bytes" where
  "b64encode [] = []"
| "b64encode [a] =
     (let x = unat a in [b64_char (x div 4), b64_char (x mod 4 * 16), 61, 61])"
| "b64encode [a, b] =
     (let x = unat a; y = unat b
      in [b64_char (x div 4), b64_char (x mod 4 * 16 + y div 16), b64_char (y mod 16 * 4), 61])"
| "b64encode (a # b # c # r) =
     (let x = unat a; y = unat b; z = unat c
      in b64_char (x div 4) # b64_char (x mod 4 * 16 + y div 16)
         # b64_char (y mod 16 * 4 + z div 64) # b64_char (z mod 64) # b64encode r)"

text \<open>
  The decoder the export is meant for: the value of an alphabet character, four
  characters back to three bytes, \<open>=\<close> padding accepted in the last group only.
\<close>

definition b64_val :: "byte \<Rightarrow> nat option" where
  "b64_val c =
     (let n = unat c in
      if 65 \<le> n \<and> n \<le> 90 then Some (n - 65)
      else if 97 \<le> n \<and> n \<le> 122 then Some (n - 71)
      else if 48 \<le> n \<and> n \<le> 57 then Some (n + 4)
      else if n = 43 then Some 62
      else if n = 47 then Some 63
      else None)"

fun b64decode :: "bytes \<Rightarrow> bytes option" where
  "b64decode [] = Some []"
| "b64decode (c1 # c2 # c3 # c4 # r) =
     (case (b64_val c1, b64_val c2) of
        (Some v1, Some v2) \<Rightarrow>
          if r = [] \<and> c3 = 61 \<and> c4 = 61 then Some [of_nat (v1 * 4 + v2 div 16)]
          else (case b64_val c3 of
                  None \<Rightarrow> None
                | Some v3 \<Rightarrow>
                    if r = [] \<and> c4 = 61
                    then Some [of_nat (v1 * 4 + v2 div 16), of_nat (v2 mod 16 * 16 + v3 div 4)]
                    else (case b64_val c4 of
                            None \<Rightarrow> None
                          | Some v4 \<Rightarrow>
                              (case b64decode r of
                                 None \<Rightarrow> None
                               | Some bs \<Rightarrow>
                                   Some (of_nat (v1 * 4 + v2 div 16)
                                         # of_nat (v2 mod 16 * 16 + v3 div 4)
                                         # of_nat (v3 mod 4 * 64 + v4) # bs))))
      | _ \<Rightarrow> None)"
| "b64decode _ = None"

section \<open>What a run does: events, exceptions, the outside world\<close>

text \<open>
  A run is its trace of observable events and how it ended. \<open>Print\<close> is a line on
  standard output and \<open>StdoutWrite\<close> text written there as it is; \<open>GetPass\<close> is
  \<open>getpass.getpass\<close>, which shows the prompt and reads a line with the terminal's echo
  off; \<open>Exec\<close> is one \<open>subprocess.run\<close> with its argv
  and what the child's output streams are connected to; \<open>ChildStdout\<close> and
  \<open>ChildStderr\<close> are what a child wrote to streams it inherited, so straight to the
  operator's terminal; \<open>WriteBytes\<close> and \<open>WriteText\<close> replace a file's contents;
  \<open>StderrWrite\<close> is text the script itself writes to standard error; \<open>Traceback\<close> is
  the interpreter's report of an exception nobody caught.
\<close>

datatype stdio = Inherit | Pipe | DevNull

datatype exn =
    SystemExit string
  | SystemExitStatus int
  | CalledProcessError "string list" int "bytes option"
  | UnicodeDecodeError
  | AttributeError
  | ValueError
  | RecursionError

record completed =
  returncode :: int
  stdout :: bytes
  stderr :: bytes

record request =
  url :: string
  headers :: "(string \<times> string) list"
  body :: "(string \<times> string) list"
  timeout :: nat

datatype event =
    Print string
  | StdoutWrite string
  | GetPass string
  | Exec "string list" stdio
  | ChildStdout bytes
  | ChildStderr bytes
  | WriteBytes string bytes
  | WriteText string string
  | StderrWrite string
  | Traceback exn
  | HttpPost request

type_synonym 'a io = "event list \<times> (exn + 'a)"

definition ret :: "'a \<Rightarrow> 'a io" where
  "ret x = ([], Inr x)"

definition emit :: "event \<Rightarrow> unit io" where
  "emit e = ([e], Inr ())"

definition raise :: "exn \<Rightarrow> 'a io" where
  "raise e = ([], Inl e)"

text \<open>Sequencing: the second step runs only when the first did not raise.\<close>

definition seq :: "'a io \<Rightarrow> ('a \<Rightarrow> 'b io) \<Rightarrow> 'b io" where
  "seq m f =
     (case m of
        (t, Inl e) \<Rightarrow> (t, Inl e)
      | (t, Inr x) \<Rightarrow> (case f x of (t', r) \<Rightarrow> (t @ t', r)))"

text \<open>
  How the interpreter ends a run of a script body: exit status 0 on a normal return;
  \<open>SystemExit\<close> with a message prints the message on standard error and exits with
  status 1; \<open>SystemExit\<close> with an integer (\<open>sys.exit(n)\<close>) prints nothing and exits
  with that status; any other exception prints a traceback and exits with status 1.
\<close>

definition interpreter_exit :: "unit io \<Rightarrow> event list \<times> int" where
  "interpreter_exit m =
     (case m of
        (t, Inr _) \<Rightarrow> (t, 0)
      | (t, Inl (SystemExit msg)) \<Rightarrow> (t @ [StderrWrite (msg @ [newline])], 1)
      | (t, Inl (SystemExitStatus n)) \<Rightarrow> (t, n)
      | (t, Inl e) \<Rightarrow> (t @ [Traceback e], 1))"

definition lift :: "exn + 'a \<Rightarrow> 'a io" where
  "lift r = ([], r)"

text \<open>
  The files a trace leaves behind. Only the script's own writes are followed: what an
  external tool writes (the ciphertext of the encryption call) is the tool's doing.
\<close>

fun fs_step :: "(string \<rightharpoonup> bytes) \<Rightarrow> event \<Rightarrow> (string \<rightharpoonup> bytes)" where
  "fs_step fs (WriteBytes p bs) = fs(p \<mapsto> bs)"
| "fs_step fs (WriteText p s) = fs(p \<mapsto> encode s)"
| "fs_step fs _ = fs"

definition files_after :: "event list \<Rightarrow> (string \<rightharpoonup> bytes) \<Rightarrow> (string \<rightharpoonup> bytes)" where
  "files_after t fs = foldl fs_step fs t"

definition getenv :: "(string \<rightharpoonup> string) \<Rightarrow> string \<Rightarrow> string \<Rightarrow> string" where
  "getenv env k d = (case env k of None \<Rightarrow> d | Some v \<Rightarrow> v)"

section \<open>\<open>scripts/setup_encryption.py\<close>\<close>

text \<open>
  The world of one run: the environment, what the \<open>gpg\<close> executable answers to an argv
  (exit status and what it writes to its two streams), which paths exist, the line the
  operator types at the passphrase prompt, the platform's signal table
  (\<open>repr(signal.Signals(n))\<close>, \<open>None\<close> where that raises \<open>ValueError\<close>), and the
  interpreter's Unicode database (which code points \<open>repr\<close> takes as printable). The
  executable is taken to be installed, the two key files to be writable and the prompt
  to be answered: the \<open>OSError\<close> of a missing \<open>gpg\<close> or of a failed write and the
  \<open>EOFError\<close> of a prompt at the end of its input are not part of the model.
\<close>

record world =
  environ :: "string \<rightharpoonup> string"
  gpg :: "string list \<Rightarrow> completed"
  path_exists :: "string \<Rightarrow> bool"
  tty_line :: string
  signal_repr :: "nat \<Rightarrow> string option"
  unicode_printable :: "nat \<Rightarrow> bool"

text \<open>
  What \<open>argparse\<close> reads off a command line it accepts (an option that is absent is
  \<open>None\<close>), and the \<open>Namespace\<close> that \<open>parse_args\<close> returns. Paths are the \<open>str\<close> of
  the \<open>Path\<close>.
\<close>

record cli =
  arg_player_name :: "string option"
  opt_recipient :: "string option"
  opt_expire :: "string option"
  opt_source :: "string option"
  opt_output :: "string option"

text \<open>
  What \<open>parser.parse_args()\<close> makes of \<open>sys.argv\<close>. The parser itself is the standard
  library's and is not modelled; its verdict is part of the input of a run. It accepts
  the command line; or it finds \<open>-h\<close> or \<open>--help\<close>, writes the help text to standard
  output and calls \<open>sys.exit(0)\<close>; or it refuses the command line (an unknown option, an
  option without its value, a second positional argument), writes the usage line and then
  the error message to standard error and calls \<open>sys.exit(2)\<close>.
\<close>

datatype command_line =
    Accepted cli
  | Help string
  | UsageError string string

record namespace =
  ns_player_name :: string
  ns_recipient :: "string option"
  ns_expire :: string
  ns_source :: string
  ns_output :: string

definition run :: "world \<Rightarrow> string list \<Rightarrow> bool \<Rightarrow> completed io" where
  "run w cmd capture =
     (let r = gpg w cmd in
      (Exec cmd (if capture then Pipe else Inherit)
         # (if capture then [] else [ChildStdout (stdout r), ChildStderr (stderr r)]),
       if returncode r \<noteq> 0
       then Inl (CalledProcessError cmd (returncode r)
                   (if capture then Some (stderr r) else None))
       else Inr r))"

text \<open>The four argument lists the script builds for \<open>gpg\<close>.\<close>

definition probe_argv :: "string \<Rightarrow> string list" where
  "probe_argv recipient = [''gpg'', ''--batch'', ''--list-secret-keys'', recipient]"

definition keygen_argv :: "string \<Rightarrow> string \<Rightarrow> string \<Rightarrow> string list" where
  "keygen_argv recipient passphrase expire =
     [''gpg'', ''--batch'', ''--passphrase'', passphrase, ''--pinentry-mode'', ''loopback'',
      ''--quick-gen-key'', recipient, ''rsa4096'', ''sign,encrypt'', expire]"

definition export_argv :: "string \<Rightarrow> string list" where
  "export_argv recipient = [''gpg'', ''--armor'', ''--export-secret-keys'', recipient]"

definition encrypt_argv :: "string \<Rightarrow> string \<Rightarrow> string \<Rightarrow> string list" where
  "encrypt_argv recipient source output =
     [''gpg'', ''--batch'', ''--yes'', ''--output'', output, ''--encrypt'', ''--recipient'',
      recipient, source]"

text \<open>
  \<open>key_exists\<close> runs the probe with both streams on \<open>DEVNULL\<close> and catches
  \<open>CalledProcessError\<close>: it returns a truth value and raises nothing.
\<close>

definition key_exists :: "world \<Rightarrow> string \<Rightarrow> bool io" where
  "key_exists w recipient =
     (let cmd = probe_argv recipient
      in ([Exec cmd DevNull], Inr (returncode (gpg w cmd) = 0)))"

definition generate_key :: "world \<Rightarrow> string \<Rightarrow> string \<Rightarrow> string \<Rightarrow> unit io" where
  "generate_key w recipient passphrase expire =
     seq (emit (Print (''[setup] Generating GPG key for '' @ [squote] @ recipient @ [squote])))
       (\<lambda>_. seq (run w (keygen_argv recipient passphrase expire) False)
       (\<lambda>_. ret ()))"

definition export_secret_key :: "world \<Rightarrow> string \<Rightarrow> unit io" where
  "export_secret_key w recipient =
     seq (emit (Print ''[setup] Exporting private key artefacts''))
       (\<lambda>_. seq (run w (export_argv recipient) True)
       (\<lambda>c. let secret = stdout c;
                 asc_path = ''private-key.asc'';
                 asc_b64_path = ''private-key.asc.b64''
             in seq (emit (WriteBytes asc_path secret))
       (\<lambda>_. seq (case decode_ascii (b64encode secret) of
                    None \<Rightarrow> raise UnicodeDecodeError
                  | Some encoded \<Rightarrow> emit (WriteText asc_b64_path encoded))
       (\<lambda>_. emit (Print (''[setup] Wrote '' @ asc_path @ '' and '' @ asc_b64_path))))))"

definition encrypt_strategy :: "world \<Rightarrow> string \<Rightarrow> string \<Rightarrow> string \<Rightarrow> unit io" where
  "encrypt_strategy w recipient source output =
     (if \<not> path_exists w source
      then raise (SystemExit (source @ '' not found. Create or decrypt your strategy first.''))
      else seq (emit (Print (''[setup] Encrypting '' @ source @ '' '' @ arrow @ '' '' @ output)))
             (\<lambda>_. seq (run w (encrypt_argv recipient source output) False)
             (\<lambda>_. ret ())))"

text \<open>
  The \<open>Namespace\<close> of an accepted command line: each absent argument takes the default
  given to \<open>add_argument\<close>, for the positional one the stripped \<open>PLAYER_NAME\<close> of the
  environment.
\<close>

definition namespace_of :: "world \<Rightarrow> cli \<Rightarrow> namespace" where
  "namespace_of w c =
     (let player_name = strip (getenv (environ w) ''PLAYER_NAME'' [])
      in \<lparr> ns_player_name = (case arg_player_name c of None \<Rightarrow> player_name | Some p \<Rightarrow> p),
           ns_recipient = opt_recipient c,
           ns_expire = (case opt_expire c of None \<Rightarrow> ''1y'' | Some e \<Rightarrow> e),
           ns_source = (case opt_source c of None \<Rightarrow> ''strategy.py'' | Some p \<Rightarrow> p),
           ns_output = (case opt_output c of None \<Rightarrow> ''strategy.py.gpg'' | Some p \<Rightarrow> p) \<rparr>)"

text \<open>
  \<open>parse_args\<close> returns the \<open>Namespace\<close>, or ends the run where the parser does: after
  the help text with status 0, after the usage line and the error message with status 2.
\<close>

definition parse_args :: "world \<Rightarrow> command_line \<Rightarrow> namespace io" where
  "parse_args w cl =
     (case cl of
        Accepted c \<Rightarrow> ret (namespace_of w c)
      | Help help_text \<Rightarrow>
          seq (emit (StdoutWrite help_text)) (\<lambda>_. raise (SystemExitStatus 0))
      | UsageError usage message \<Rightarrow>
          seq (emit (StderrWrite usage))
            (\<lambda>_. seq (emit (StderrWrite message)) (\<lambda>_. raise (SystemExitStatus 2))))"

definition recipient_required :: string where
  "recipient_required =
     ''GPG recipient name required. Either:'' @ [newline]
     @ ''  '' @ bullet @ '' Set PLAYER_NAME environment variable, or'' @ [newline]
     @ ''  '' @ bullet @ '' Pass player name as argument: python scripts/setup_encryption.py ''
     @ [squote] @ ''Your Player Name'' @ [squote]"

definition next_steps :: string where
  "next_steps =
     [newline] @ ''Next steps:'' @ [newline]
     @ ''  '' @ bullet @ '' Add private-key.asc.b64 to repo secret GPG_PRIVATE_KEY_B64'' @ [newline]
     @ ''  '' @ bullet @ '' Store the passphrase you just entered in GPG_PASSPHRASE'' @ [newline]
     @ ''  '' @ bullet @ '' Delete private-key.asc and private-key.asc.b64 after copying''
     @ [newline]"

text \<open>\<open>args.recipient or args.player_name\<close>: an absent or empty override is falsy.\<close>

definition resolve_recipient :: "namespace \<Rightarrow> string" where
  "resolve_recipient args =
     (case ns_recipient args of
        None \<Rightarrow> ns_player_name args
      | Some r \<Rightarrow> if r \<noteq> [] then r else ns_player_name args)"

definition setup_main :: "world \<Rightarrow> command_line \<Rightarrow> unit io" where
  "setup_main w cl =
     seq (parse_args w cl)
       (\<lambda>args.
          let recipient = resolve_recipient args
          in if recipient = [] then raise (SystemExit recipient_required)
             else seq (emit (GetPass ''GPG passphrase (for new key or future reference): ''))
               (\<lambda>_. let passphrase = tty_line w
                     in if passphrase = [] then raise (SystemExit ''Passphrase cannot be empty.'')
                        else seq (key_exists w recipient)
               (\<lambda>found. seq (if \<not> found
                              then generate_key w recipient passphrase (ns_expire args)
                              else emit (Print (''[setup] Reusing existing GPG key '' @ [squote]
                                                @ recipient @ [squote])))
               (\<lambda>_. seq (encrypt_strategy w recipient (ns_source args) (ns_output args))
               (\<lambda>_. seq (export_secret_key w recipient)
               (\<lambda>_. emit (Print next_steps)))))))"

text \<open>\<open>str(exc)\<close> of a \<open>subprocess.CalledProcessError\<close>.\<close>

definition CalledProcessError_str :: "world \<Rightarrow> string list \<Rightarrow> int \<Rightarrow> string" where
  "CalledProcessError_str w cmd rc =
     (if rc < 0 then
        (case signal_repr w (nat (- rc)) of
           Some sig \<Rightarrow>
             ''Command '' @ [squote] @ repr_str_list (unicode_printable w) cmd @ [squote]
             @ '' died with '' @ sig @ ''.''
         | None \<Rightarrow>
             ''Command '' @ [squote] @ repr_str_list (unicode_printable w) cmd @ [squote]
             @ '' died with unknown signal '' @ str_int (- rc) @ ''.'')
      else ''Command '' @ [squote] @ repr_str_list (unicode_printable w) cmd @ [squote]
           @ '' returned non-zero exit status '' @ str_int rc @ ''.'')"

text \<open>
  The script body is \<open>main()\<close> under \<open>handle_exit\<close>, the \<open>except\<close> clause for
  \<open>CalledProcessError\<close>, which writes
  \<open>exc.stderr.decode() if exc.stderr else str(exc)\<close> to standard error and calls
  \<open>sys.exit(exc.returncode)\<close>. The result is the trace and the status given to
  \<open>sys.exit\<close>.
\<close>

definition handle_exit :: "world \<Rightarrow> unit io \<Rightarrow> event list \<times> int" where
  "handle_exit w m =
     (case m of
        (t, Inl (CalledProcessError cmd rc err)) \<Rightarrow>
          (case (case err of
                   None \<Rightarrow> Some (CalledProcessError_str w cmd rc)
                 | Some bs \<Rightarrow> if bs \<noteq> [] then decode bs
                              else Some (CalledProcessError_str w cmd rc)) of
             None \<Rightarrow> (t @ [Traceback UnicodeDecodeError], 1)
           | Some msg \<Rightarrow> (t @ [StderrWrite msg], rc))
      | _ \<Rightarrow> interpreter_exit m)"

definition setup_script :: "world \<Rightarrow> command_line \<Rightarrow> event list \<times> int" where
  "setup_script w cl = handle_exit w (setup_main w cl)"

section \<open>\<open>register.py\<close>\<close>

text \<open>
  What \<open>response.json()\<close> can return: \<open>None\<close>, a \<open>bool\<close>, an \<open>int\<close>, a \<open>str\<close>, a
  \<open>list\<close> or a \<open>dict\<close> (an association list in insertion order, its keys distinct).
  Numbers with a fraction are left out of the model.
\<close>

datatype json =
    JNull
  | JBool bool
  | JInt int
  | JStr string
  | JList "json list"
  | JDict "(string \<times> json) list"

text \<open>
  A response of the server as the script reads it: \<open>status_code\<close>, \<open>text\<close>, and the
  outcome of \<open>json()\<close>. The parser is the library's and is not modelled: the call returns
  the parsed value, or raises \<open>ValueError\<close> (the library's \<open>JSONDecodeError\<close> is one) for
  a body that is not JSON, or raises something else, as the \<open>RecursionError\<close> of a body
  whose brackets nest too deep for the parser.
\<close>

record response =
  status_code :: int
  body_text :: string
  body_json :: "exn + json"

text \<open>\<open>Response.ok\<close>: \<open>raise_for_status\<close> raises for 400 to 599.\<close>

definition ok :: "response \<Rightarrow> bool" where
  "ok r = (\<not> (400 \<le> status_code r \<and> status_code r < 600))"

text \<open>Truth value of an object, as \<open>or\<close> tests it.\<close>

fun truthy :: "json \<Rightarrow> bool" where
  "truthy JNull = False"
| "truthy (JBool b) = b"
| "truthy (JInt i) = (i \<noteq> 0)"
| "truthy (JStr s) = (s \<noteq> [])"
| "truthy (JList xs) = (xs \<noteq> [])"
| "truthy (JDict kvs) = (kvs \<noteq> [])"

text \<open>\<open>payload.get(k)\<close>: only a \<open>dict\<close> has the method; a missing key gives \<open>None\<close>.\<close>

fun dict_get :: "json \<Rightarrow> string \<Rightarrow> exn + json" where
  "dict_get (JDict kvs) k = Inr (case map_of kvs k of None \<Rightarrow> JNull | Some v \<Rightarrow> v)"
| "dict_get _ k = Inl AttributeError"

text \<open>\<open>x.lower()\<close>: only a \<open>str\<close> has the method.\<close>

fun py_lower :: "json \<Rightarrow> exn + string" where
  "py_lower (JStr s) = Inr (lower s)"
| "py_lower _ = Inl AttributeError"

fun py_repr :: "(nat \<Rightarrow> bool) \<Rightarrow> json \<Rightarrow> string" where
  "py_repr printable JNull = ''None''"
| "py_repr printable (JBool b) = (if b then ''True'' else ''False'')"
| "py_repr printable (JInt i) = str_int i"
| "py_repr printable (JStr s) = repr_str printable s"
| "py_repr printable (JList xs) = ''['' @ join '', '' (map (py_repr printable) xs) @ '']''"
| "py_repr printable (JDict kvs) =
     ''{'' @ join '', ''
              (map (\<lambda>kv. repr_str printable (fst kv) @ '': '' @ py_repr printable (snd kv)) kvs)
     @ ''}''"

text \<open>What an f-string puts for \<open>{x}\<close>: \<open>str(x)\<close>, the text itself for a \<open>str\<close>.\<close>

fun py_str :: "(nat \<Rightarrow> bool) \<Rightarrow> json \<Rightarrow> string" where
  "py_str printable (JStr s) = s"
| "py_str printable v = py_repr printable v"

definition set_or_missing :: "string \<Rightarrow> string" where
  "set_or_missing v = (if v \<noteq> [] then ''set'' else ''missing'')"

text \<open>Lines 65 to 75 of \<open>main\<close>: what is printed for a body that parsed as JSON.\<close>

definition report_payload :: "(nat \<Rightarrow> bool) \<Rightarrow> string \<Rightarrow> json \<Rightarrow> unit io" where
  "report_payload printable github_repo payload =
     seq (lift (dict_get payload ''status''))
       (\<lambda>v. seq (lift (py_lower (if truthy v then v else JStr [])))
       (\<lambda>status.
          if status = ''registered'' then
            seq (lift (dict_get payload ''player_name''))
              (\<lambda>name. seq (lift (dict_get payload ''player_id''))
              (\<lambda>ident. seq (emit (Print (''Player '' @ [squote] @ py_str printable name
                                          @ [squote] @ '' registered with id ''
                                          @ py_str printable ident @ ''.'')))
              (\<lambda>_. emit (Print (check_mark @ '' Auto-trigger configured for repo: ''
                                 @ github_repo)))))
          else if status = ''already_registered'' then
            seq (lift (dict_get payload ''player_name''))
              (\<lambda>name. seq (lift (dict_get payload ''player_id''))
              (\<lambda>ident. emit (Print (''Player '' @ [squote] @ py_str printable name
                                     @ [squote] @ '' already registered. Using id ''
                                     @ py_str printable ident @ ''.''))))
          else emit (Print (''Registration response: '' @ py_str printable payload))))"

text \<open>
  The request that \<open>requests.post\<close> is called with: the endpoint under the server URL
  (its trailing slashes already removed), the two headers, the JSON body and the timeout.
\<close>

definition register_request :: "string \<Rightarrow> string \<Rightarrow> string \<Rightarrow> string \<Rightarrow> request" where
  "register_request server_url github_token player_name github_repo =
     \<lparr> url = server_url @ ''/register'',
       headers = [(''Content-Type'', ''application/json''),
                  (''Authorization'', ''Bearer '' @ github_token)],
       body = [(''player_name'', player_name), (''github_repo'', github_repo)],
       timeout = 10 \<rparr>"

text \<open>
  Lines 53 to 75 of \<open>main\<close>: what is done with the outcome of \<open>requests.post\<close>, which
  raised (\<open>Inl\<close>, with the text of the exception) or returned a response. Of what
  \<open>response.json()\<close> raises, \<open>except ValueError\<close> catches the \<open>ValueError\<close> only; any
  other exception leaves \<open>main\<close>.
\<close>

definition read_response ::
  "(nat \<Rightarrow> bool) \<Rightarrow> string \<Rightarrow> string + response \<Rightarrow> unit io" where
  "read_response printable github_repo outcome =
     (case outcome of
        Inl exc \<Rightarrow> raise (SystemExit (''Registration error: '' @ exc))
      | Inr response \<Rightarrow>
          if \<not> ok response then
            raise (SystemExit (''Registration failed: '' @ str_int (status_code response)
                               @ '' '' @ body_text response))
          else (case body_json response of
                  Inl e \<Rightarrow>
                    if e = ValueError
                    then emit (Print ''Registration succeeded but response was not JSON.'')
                    else raise e
                | Inr payload \<Rightarrow> report_payload printable github_repo payload))"

text \<open>Lines 38 to 75 of \<open>main\<close>: the configuration has been accepted.\<close>

definition submit ::
  "(nat \<Rightarrow> bool) \<Rightarrow> (request \<Rightarrow> string + response)
   \<Rightarrow> string \<Rightarrow> string \<Rightarrow> string \<Rightarrow> string \<Rightarrow> unit io" where
  "submit printable post server_url github_token player_name github_repo =
     (let server_url = rstrip_slash server_url;
          req = register_request server_url github_token player_name github_repo
      in seq (emit (Print (''[register] Using endpoint '' @ server_url @ ''/register'')))
        (\<lambda>_. seq (emit (Print (''[register] Configuring auto-trigger for repo: ''
                                @ github_repo)))
        (\<lambda>_. seq (emit (Print
           ''[register] Using GAME_TOKEN for both authentication and workflow triggering''))
        (\<lambda>_. seq (emit (HttpPost req))
        (\<lambda>_. read_response printable github_repo (post req))))))"

text \<open>
  \<open>main\<close>, with the module-level \<open>PLAYER_NAME\<close> read from the same environment. The
  server is a function from the request to the outcome of \<open>requests.post\<close>; the first
  argument is the interpreter's Unicode database, which \<open>repr\<close> consults.
\<close>

definition register_main ::
  "(nat \<Rightarrow> bool) \<Rightarrow> (string \<rightharpoonup> string) \<Rightarrow> (request \<Rightarrow> string + response)
   \<Rightarrow> unit io" where
  "register_main printable env post =
     (let PLAYER_NAME = strip (getenv env ''PLAYER_NAME'' ''encrypted-template'');
          server_url = strip (getenv env ''SERVER_URL'' []);
          github_token = strip (getenv env ''GAME_TOKEN'' []);
          github_repo = strip (getenv env ''GITHUB_REPOSITORY'' (getenv env ''GITHUB_REPO'' []))
      in seq (emit (Print (''[register] Config state: SERVER_URL='' @ set_or_missing server_url
                           @ '', GAME_TOKEN='' @ set_or_missing github_token
                           @ '', PLAYER_NAME='' @ set_or_missing PLAYER_NAME
                           @ '', GITHUB_REPO='' @ set_or_missing github_repo)))
        (\<lambda>_.
          if server_url = [] then
            raise (SystemExit ''SERVER_URL environment variable not set'')
          else if github_token = [] then
            raise (SystemExit ''GAME_TOKEN environment variable not set'')
          else if PLAYER_NAME = [] then
            raise (SystemExit ''PLAYER_NAME environment variable not set'')
          else if github_repo = [] then
            raise (SystemExit ''GITHUB_REPO or GITHUB_REPOSITORY environment variable not set'')
          else if \<not> startswith server_url [''http://'', ''https://''] then
            raise (SystemExit (''SERVER_URL must include scheme (http/https); got ''
                               @ [squote] @ server_url @ [squote]))
          else submit printable post server_url github_token PLAYER_NAME github_repo))"

text \<open>The script body: \<open>main()\<close>, nothing caught.\<close>

definition register_script ::
  "(nat \<Rightarrow> bool) \<Rightarrow> (string \<rightharpoonup> string) \<Rightarrow> (request \<Rightarrow> string + response)
   \<Rightarrow> event list \<times> int" where
  "register_script printable env post = interpreter_exit (register_main printable env post)"

text \<open>
  Names for the four values as \<open>main\<close> reads them, for the test it puts them to, for the
  diagnostic line and for the request it sends.
\<close>

abbreviation cfg_server_url :: "(string \<rightharpoonup> string) \<Rightarrow> string" where
  "cfg_server_url env \<equiv> strip (getenv env ''SERVER_URL'' [])"

abbreviation cfg_token :: "(string \<rightharpoonup> string) \<Rightarrow> string" where
  "cfg_token env \<equiv> strip (getenv env ''GAME_TOKEN'' [])"

abbreviation cfg_player_name :: "(string \<rightharpoonup> string) \<Rightarrow> string" where
  "cfg_player_name env \<equiv> strip (getenv env ''PLAYER_NAME'' ''encrypted-template'')"

abbreviation cfg_repo :: "(string \<rightharpoonup> string) \<Rightarrow> string" where
  "cfg_repo env \<equiv> strip (getenv env ''GITHUB_REPOSITORY'' (getenv env ''GITHUB_REPO'' []))"

abbreviation accepted :: "(string \<rightharpoonup> string) \<Rightarrow> bool" where
  "accepted env \<equiv>
     cfg_server_url env \<noteq> [] \<and> cfg_token env \<noteq> [] \<and> cfg_player_name env \<noteq> []
     \<and> cfg_repo env \<noteq> [] \<and> startswith (cfg_server_url env) [''http://'', ''https://'']"

abbreviation config_line :: "(string \<rightharpoonup> string) \<Rightarrow> string" where
  "config_line env \<equiv>
     ''[register] Config state: SERVER_URL='' @ set_or_missing (cfg_server_url env)
     @ '', GAME_TOKEN='' @ set_or_missing (cfg_token env)
     @ '', PLAYER_NAME='' @ set_or_missing (cfg_player_name env)
     @ '', GITHUB_REPO='' @ set_or_missing (cfg_repo env)"

abbreviation sent_request :: "(string \<rightharpoonup> string) \<Rightarrow> request" where
  "sent_request env \<equiv>
     register_request (rstrip_slash (cfg_server_url env)) (cfg_token env) (cfg_player_name env)
       (cfg_repo env)"

section \<open>Reading a trace\<close>

text \<open>The argv of every external call of a trace, in order, and the paths it wrote.\<close>

fun execs :: "event list \<Rightarrow> string list list" where
  "execs [] = []"
| "execs (Exec cmd io # t) = cmd # execs t"
| "execs (e # t) = execs t"

fun written :: "event list \<Rightarrow> string list" where
  "written [] = []"
| "written (WriteBytes p bs # t) = p # written t"
| "written (WriteText p s # t) = p # written t"
| "written (e # t) = written t"

fun posts :: "event list \<Rightarrow> request list" where
  "posts [] = []"
| "posts (HttpPost req # t) = req # posts t"
| "posts (e # t) = posts t"

text \<open>
  The one external call that is given the passphrase, and what the script itself writes
  to standard error.
\<close>

fun is_keygen :: "event \<Rightarrow> bool" where
  "is_keygen (Exec cmd io) = (take 3 cmd = [''gpg'', ''--batch'', ''--passphrase''])"
| "is_keygen e = False"

fun is_stderr_write :: "event \<Rightarrow> bool" where
  "is_stderr_write (StderrWrite s) = True"
| "is_stderr_write e = False"

text \<open>
  The steps of \<open>main\<close> once the key is in place (encrypt, export, guidance), as one
  computation: the passphrase is not among its arguments.
\<close>

definition after_key :: "world \<Rightarrow> string \<Rightarrow> string \<Rightarrow> string \<Rightarrow> unit io" where
  "after_key w recipient source output =
     seq (encrypt_strategy w recipient source output)
       (\<lambda>_. seq (export_secret_key w recipient)
       (\<lambda>_. emit (Print next_steps)))"

text \<open>
  A value that consists of white space only (or is empty): it can be read off as a
  sequence of white-space characters.
\<close>

function all_space :: "string \<Rightarrow> bool" where
  "all_space s =
     (if s = [] then True
      else (case leading_space s of None \<Rightarrow> False | Some w \<Rightarrow> all_space (drop (length w) s)))"
  by pat_completeness auto
termination
  by (relation "measure length") (auto dest: leading_space_shorter)

declare all_space.simps [simp del]

section \<open>Example runs\<close>

definition gpg_ok :: "string list \<Rightarrow> completed" where
  "gpg_ok cmd = \<lparr> returncode = 0, stdout = [0x2D, 0x2D, 0x2D, 0x0A], stderr = [] \<rparr>"

text \<open>No secret key yet: the probe exits with 2, every other call succeeds.\<close>

definition gpg_no_key :: "string list \<Rightarrow> completed" where
  "gpg_no_key cmd =
     (if take 3 cmd = [''gpg'', ''--batch'', ''--list-secret-keys'']
      then \<lparr> returncode = 2, stdout = [], stderr = [] \<rparr>
      else gpg_ok cmd)"

text \<open>No secret key, and key generation fails with exit status 2.\<close>

definition gpg_keygen_fails :: "string list \<Rightarrow> completed" where
  "gpg_keygen_fails cmd =
     (if take 2 cmd = [''gpg'', ''--batch'']
      then \<lparr> returncode = 2, stdout = [], stderr = [] \<rparr>
      else gpg_ok cmd)"

text \<open>
  The export fails with exit status 2 and the message \<open>gpg: \<close> followed by the byte
  \<open>0xFC\<close> (a u-umlaut as a Latin-1 locale writes it) on its standard error.
\<close>

definition gpg_export_fails :: "string list \<Rightarrow> completed" where
  "gpg_export_fails cmd =
     (if take 2 cmd = [''gpg'', ''--armor'']
      then \<lparr> returncode = 2, stdout = [], stderr = [0x67, 0x70, 0x67, 0x3A, 0x20, 0xFC] \<rparr>
      else gpg_ok cmd)"

text \<open>
  The printable characters of Latin-1 above ASCII; the example runs hold no other
  character that \<open>repr\<close> is applied to.
\<close>

definition latin1_printable :: "nat \<Rightarrow> bool" where
  "latin1_printable cp = (0xA1 \<le> cp \<and> cp \<le> 0xFF \<and> cp \<noteq> 0xAD)"

definition world_of :: "(string list \<Rightarrow> completed) \<Rightarrow> bool \<Rightarrow> string \<Rightarrow> world" where
  "world_of g present typed =
     \<lparr> environ = Map.empty, gpg = g, path_exists = (\<lambda>p. present), tty_line = typed,
       signal_repr = (\<lambda>n. None), unicode_printable = latin1_printable \<rparr>"

definition cli_bot1 :: cli where
  "cli_bot1 =
     \<lparr> arg_player_name = Some ''bot1'', opt_recipient = None, opt_expire = None,
       opt_source = None, opt_output = None \<rparr>"




definition env_of :: "(string \<times> string) list \<Rightarrow> (string \<rightharpoonup> string)" where
  "env_of kvs = map_of kvs"

definition env_ok :: "string \<rightharpoonup> string" where
  "env_ok =
     env_of [(''SERVER_URL'', ''https://example.org/ ''), (''GAME_TOKEN'', '' t0ken''),
             (''GITHUB_REPOSITORY'', ''alice/bot'')]"

text \<open>No token; and a repository variable that is set but blank beside a good fallback.\<close>

definition env_no_token :: "string \<rightharpoonup> string" where
  "env_no_token = env_of [(''SERVER_URL'', ''https://example.org/ '')]"

definition env_blank_repo :: "string \<rightharpoonup> string" where
  "env_blank_repo =
     env_of [(''SERVER_URL'', ''https://example.org/ ''), (''GAME_TOKEN'', '' t0ken''),
             (''GITHUB_REPOSITORY'', ''  ''), (''GITHUB_REPO'', ''alice/bot'')]"

text \<open>A body of 100000 opening square brackets.\<close>

definition deep_brackets :: string where
  "deep_brackets = replicate 100000 (CHR ''['')"

definition server_says ::
  "int \<Rightarrow> string \<Rightarrow> exn + json \<Rightarrow> request \<Rightarrow> string + response" where
  "server_says code txt parsed req =
     Inr \<lparr> status_code = code, body_text = txt, body_json = parsed \<rparr>"

section \<open>Base64: decoding undoes encoding\<close>

lemma pack_bound: "a < m \<Longrightarrow> b < k \<Longrightarrow> a * k + b < m * (k::nat)"
proof -
  assume a: "a < m" and b: "b < k"
  from a have "Suc a \<le> m" by simp
  then have "Suc a * k \<le> m * k" by (rule mult_le_mono1)
  with b show ?thesis by simp
qed

lemma pack_div: "b < k \<Longrightarrow> (a * k + b) div k = (a::nat)"
  by simp

lemma pack_mod: "b < k \<Longrightarrow> (a * k + b) mod k = (b::nat)"
  by simp

lemma hi_bound: "x < m * k \<Longrightarrow> x div k < (m::nat)"
  by (rule less_mult_imp_div_less)

lemma sextets:
  fixes x y z :: nat
  assumes "x < 256" "y < 256" "z < 256"
  shows "x div 4 < 64" "x mod 4 * 16 < 64" "x mod 4 * 16 + y div 16 < 64"
    "y mod 16 * 4 < 64" "y mod 16 * 4 + z div 64 < 64" "z mod 64 < 64"
proof -
  show "x div 4 < 64" using assms(1) hi_bound [of x 64 4] by simp
  have y16: "y div 16 < 16" using assms(2) hi_bound [of y 16 16] by simp
  have z64: "z div 64 < 4" using assms(3) hi_bound [of z 4 64] by simp
  have x4: "x mod 4 < 4" and ym: "y mod 16 < 16" by simp_all
  show "x mod 4 * 16 + y div 16 < 64" using pack_bound [OF x4 y16] by simp
  then show "x mod 4 * 16 < 64" by simp
  show "y mod 16 * 4 + z div 64 < 64" using pack_bound [OF ym z64] by simp
  then show "y mod 16 * 4 < 64" by simp
  show "z mod 64 < 64" by simp
qed

lemma regroup:
  fixes x y z :: nat
  assumes "x < 256" "y < 256" "z < 256"
  shows "x div 4 * 4 + (x mod 4 * 16) div 16 = x"
    "x div 4 * 4 + (x mod 4 * 16 + y div 16) div 16 = x"
    "(x mod 4 * 16 + y div 16) mod 16 * 16 + (y mod 16 * 4) div 4 = y"
    "(x mod 4 * 16 + y div 16) mod 16 * 16 + (y mod 16 * 4 + z div 64) div 4 = y"
    "(y mod 16 * 4 + z div 64) mod 4 * 64 + z mod 64 = z"
proof -
  have y16: "y div 16 < 16" using assms(2) hi_bound [of y 16 16] by simp
  have z64: "z div 64 < 4" using assms(3) hi_bound [of z 4 64] by simp
  show "x div 4 * 4 + (x mod 4 * 16) div 16 = x" by simp
  show "x div 4 * 4 + (x mod 4 * 16 + y div 16) div 16 = x"
    by (simp only: pack_div [OF y16] div_mult_mod_eq)
  show "(x mod 4 * 16 + y div 16) mod 16 * 16 + (y mod 16 * 4) div 4 = y"
    by (simp only: pack_mod [OF y16] nonzero_mult_div_cancel_right div_mult_mod_eq)
  show "(x mod 4 * 16 + y div 16) mod 16 * 16 + (y mod 16 * 4 + z div 64) div 4 = y"
    by (simp only: pack_mod [OF y16] pack_div [OF z64] div_mult_mod_eq)
  show "(y mod 16 * 4 + z div 64) mod 4 * 64 + z mod 64 = z"
    by (simp only: pack_mod [OF z64] div_mult_mod_eq)
qed


lemma unat_byte_lt: "unat (b :: byte) < 256"
  using unsigned_less [of b, where 'a = nat] by simp

lemma unat_of_nat_byte: "n < 256 \<Longrightarrow> unat (of_nat n :: byte) = n"
  by (simp add: unat_of_nat)

lemma b64_code_ascii: "n < 64 \<Longrightarrow> b64_code n < 128"
  unfolding b64_code_def by auto

lemma b64_code_not_pad: "n < 64 \<Longrightarrow> b64_code n \<noteq> 61"
  unfolding b64_code_def by auto

lemma unat_b64_char: "n < 64 \<Longrightarrow> unat (b64_char n) = b64_code n"
  using b64_code_ascii [of n] by (simp add: b64_char_def unat_of_nat_byte)

lemma b64_val_char: "n < 64 \<Longrightarrow> b64_val (b64_char n) = Some n"
  unfolding b64_val_def Let_def by (simp only: unat_b64_char) (auto simp: b64_code_def)

lemma b64_char_ascii: "n < 64 \<Longrightarrow> unat (b64_char n) < 128"
  by (simp add: unat_b64_char b64_code_ascii)

lemma b64_char_not_pad: "n < 64 \<Longrightarrow> b64_char n \<noteq> 61"
proof
  assume n: "n < 64" and "b64_char n = 61"
  then have "unat (b64_char n) = unat (61 :: byte)" by simp
  with n show False by (simp add: unat_b64_char b64_code_not_pad)
qed

lemma b64encode_nonempty: "bs \<noteq> [] \<Longrightarrow> b64encode bs \<noteq> []"
  by (induction bs rule: b64encode.induct) (simp_all add: Let_def)

lemma decode_one:
  fixes x :: nat
  assumes x: "x < 256"
  shows "b64decode [b64_char (x div 4), b64_char (x mod 4 * 16), 61, 61] = Some [of_nat x]"
proof -
  note s = sextets [OF x x x]
  have v: "b64_val (b64_char (x div 4)) = Some (x div 4)"
    "b64_val (b64_char (x mod 4 * 16)) = Some (x mod 4 * 16)"
    using s by (simp_all only: b64_val_char)
  show ?thesis
    by (simp only: b64decode.simps v regroup(1) [OF x x x] prod.case option.case simp_thms if_True)
qed

lemma decode_two:
  fixes x y :: nat
  assumes x: "x < 256" and y: "y < 256"
  shows "b64decode [b64_char (x div 4), b64_char (x mod 4 * 16 + y div 16),
                    b64_char (y mod 16 * 4), 61] = Some [of_nat x, of_nat y]"
proof -
  note s = sextets [OF x y y]
  have v: "b64_val (b64_char (x div 4)) = Some (x div 4)"
    "b64_val (b64_char (x mod 4 * 16 + y div 16)) = Some (x mod 4 * 16 + y div 16)"
    "b64_val (b64_char (y mod 16 * 4)) = Some (y mod 16 * 4)"
    using s by (simp_all only: b64_val_char)
  have p: "b64_char (y mod 16 * 4) \<noteq> 61" using s by (simp only: b64_char_not_pad simp_thms)
  show ?thesis
    using p
    by (simp only: b64decode.simps v regroup(2,3) [OF x y y] prod.case option.case simp_thms
        if_True if_False)
qed

lemma decode_three:
  fixes x y z :: nat
  assumes x: "x < 256" and y: "y < 256" and z: "z < 256"
  shows "b64decode (b64_char (x div 4) # b64_char (x mod 4 * 16 + y div 16)
                    # b64_char (y mod 16 * 4 + z div 64) # b64_char (z mod 64) # r)
         = (case b64decode r of None \<Rightarrow> None
            | Some bs \<Rightarrow> Some (of_nat x # of_nat y # of_nat z # bs))"
proof -
  note s = sextets [OF x y z]
  have v: "b64_val (b64_char (x div 4)) = Some (x div 4)"
    "b64_val (b64_char (x mod 4 * 16 + y div 16)) = Some (x mod 4 * 16 + y div 16)"
    "b64_val (b64_char (y mod 16 * 4 + z div 64)) = Some (y mod 16 * 4 + z div 64)"
    "b64_val (b64_char (z mod 64)) = Some (z mod 64)"
    using s by (simp_all only: b64_val_char)
  have p: "b64_char (y mod 16 * 4 + z div 64) \<noteq> 61" "b64_char (z mod 64) \<noteq> 61"
    using s by (simp_all only: b64_char_not_pad simp_thms)
  show ?thesis
    using p
    by (simp only: b64decode.simps v regroup(2,4,5) [OF x y z] prod.case option.case simp_thms
        if_True if_False)
qed

lemma b64decode_b64encode: "b64decode (b64encode bs) = Some bs"
proof (induction bs rule: b64encode.induct)
  case 1
  show ?case by simp
next
  case (2 a)
  show ?case
    using decode_one [OF unat_byte_lt [of a]] by (simp add: Let_def)
next
  case (3 a b)
  show ?case
    using decode_two [OF unat_byte_lt [of a] unat_byte_lt [of b]] by (simp add: Let_def)
next
  case (4 a b c r)
  have "b64decode (b64encode (a # b # c # r))
      = (case b64decode (b64encode r) of None \<Rightarrow> None
         | Some bs \<Rightarrow> Some (of_nat (unat a) # of_nat (unat b) # of_nat (unat c) # bs))"
    using decode_three [OF unat_byte_lt [of a] unat_byte_lt [of b] unat_byte_lt [of c], of "b64encode r"]
    by (simp only: b64encode.simps Let_def simp_thms)
  with 4 show ?case by simp
qed


lemma b64encode_ascii: "list_all (\<lambda>b. unat b < 128) (b64encode bs)"
proof (induction bs rule: b64encode.induct)
  case 1
  show ?case by simp
next
  case (2 a)
  note s = sextets [OF unat_byte_lt [of a] unat_byte_lt [of a] unat_byte_lt [of a]]
  show ?case using s by (simp add: Let_def b64_char_ascii)
next
  case (3 a b)
  note s = sextets [OF unat_byte_lt [of a] unat_byte_lt [of b] unat_byte_lt [of b]]
  show ?case using s by (simp add: Let_def b64_char_ascii)
next
  case (4 a b c r)
  note s = sextets [OF unat_byte_lt [of a] unat_byte_lt [of b] unat_byte_lt [of c]]
  show ?case using 4 s by (simp add: Let_def b64_char_ascii)
qed

lemma of_char_char_of_byte: "of_char (char_of (unat b)) = (b :: byte)"
proof -
  have "(of_char (char_of (unat b)) :: nat) = unat b mod 256"
    by (rule of_char_of)
  also have "\<dots> = unat b"
    using unat_byte_lt [of b] by simp
  finally have n: "(of_char (char_of (unat b)) :: nat) = unat b" .
  have "(of_char (char_of (unat b)) :: byte) = of_nat (of_char (char_of (unat b)))"
    by (simp only: of_nat_of_char)
  also have "\<dots> = of_nat (unat b)"
    by (simp only: n)
  also have "\<dots> = b"
    by simp
  finally show ?thesis .
qed

lemma encode_char_of_unat: "encode (map (\<lambda>b. char_of (unat b)) bs) = bs"
  by (induction bs) (simp_all add: encode_def of_char_char_of_byte)

lemma decode_ascii_b64encode:
  "decode_ascii (b64encode bs) = Some (map (\<lambda>b. char_of (unat b)) (b64encode bs))"
  by (simp add: decode_ascii_def b64encode_ascii)

section \<open>Sequencing and the steps of the setup script\<close>

lemma seq_emit [simp]: "seq (emit e) f = (e # fst (f ()), snd (f ()))"
  by (simp add: seq_def emit_def split: prod.splits)

lemma seq_raise [simp]: "seq (raise e) f = ([], Inl e)"
  by (simp add: seq_def raise_def)

lemma seq_ret [simp]: "seq (ret x) f = f x"
  by (simp add: seq_def ret_def split: prod.splits)

lemma seq_Inl [simp]: "seq (t, Inl e) f = (t, Inl e)"
  by (simp add: seq_def)

lemma seq_Inr [simp]: "seq (t, Inr x) f = (t @ fst (f x), snd (f x))"
  by (simp add: seq_def split: prod.splits)

lemma seq_lift_Inl [simp]: "seq (lift (Inl e)) f = ([], Inl e)"
  by (simp add: lift_def)

lemma seq_lift_Inr [simp]: "seq (lift (Inr x)) f = f x"
  by (simp add: lift_def)

lemma fst_emit [simp]: "fst (emit e) = [e]"
  by (simp add: emit_def)

lemma snd_emit [simp]: "snd (emit e) = Inr ()"
  by (simp add: emit_def)

lemma fst_ret [simp]: "fst (ret x) = []"
  by (simp add: ret_def)

lemma snd_ret [simp]: "snd (ret x) = Inr x"
  by (simp add: ret_def)

lemma run_failed:
  "returncode (gpg w cmd) \<noteq> 0 \<Longrightarrow>
   run w cmd cap =
     (Exec cmd (if cap then Pipe else Inherit)
        # (if cap then [] else [ChildStdout (stdout (gpg w cmd)), ChildStderr (stderr (gpg w cmd))]),
      Inl (CalledProcessError cmd (returncode (gpg w cmd))
             (if cap then Some (stderr (gpg w cmd)) else None)))"
  by (simp add: run_def Let_def)

lemma run_succeeded:
  "returncode (gpg w cmd) = 0 \<Longrightarrow>
   run w cmd cap =
     (Exec cmd (if cap then Pipe else Inherit)
        # (if cap then [] else [ChildStdout (stdout (gpg w cmd)), ChildStderr (stderr (gpg w cmd))]),
      Inr (gpg w cmd))"
  by (simp add: run_def Let_def)

lemma generate_key_eq:
  "generate_key w r p e =
     ([Print (''[setup] Generating GPG key for '' @ [squote] @ r @ [squote]),
       Exec (keygen_argv r p e) Inherit,
       ChildStdout (stdout (gpg w (keygen_argv r p e))),
       ChildStderr (stderr (gpg w (keygen_argv r p e)))],
      if returncode (gpg w (keygen_argv r p e)) \<noteq> 0
      then Inl (CalledProcessError (keygen_argv r p e)
                  (returncode (gpg w (keygen_argv r p e))) None)
      else Inr ())"
  by (simp add: generate_key_def run_failed run_succeeded)

lemma encrypt_strategy_eq:
  "encrypt_strategy w r src out =
     (if \<not> path_exists w src
      then ([], Inl (SystemExit (src @ '' not found. Create or decrypt your strategy first.'')))
      else ([Print (''[setup] Encrypting '' @ src @ '' '' @ arrow @ '' '' @ out),
             Exec (encrypt_argv r src out) Inherit,
             ChildStdout (stdout (gpg w (encrypt_argv r src out))),
             ChildStderr (stderr (gpg w (encrypt_argv r src out)))],
            if returncode (gpg w (encrypt_argv r src out)) \<noteq> 0
            then Inl (CalledProcessError (encrypt_argv r src out)
                        (returncode (gpg w (encrypt_argv r src out))) None)
            else Inr ()))"
  by (simp add: encrypt_strategy_def run_failed run_succeeded raise_def)

lemma export_secret_key_failed:
  "returncode (gpg w (export_argv r)) \<noteq> 0 \<Longrightarrow>
   export_secret_key w r =
     ([Print ''[setup] Exporting private key artefacts'', Exec (export_argv r) Pipe],
      Inl (CalledProcessError (export_argv r) (returncode (gpg w (export_argv r)))
             (Some (stderr (gpg w (export_argv r))))))"
  by (simp add: export_secret_key_def run_failed)

lemma export_secret_key_succeeded:
  "returncode (gpg w (export_argv r)) = 0 \<Longrightarrow>
   export_secret_key w r =
     ([Print ''[setup] Exporting private key artefacts'', Exec (export_argv r) Pipe,
       WriteBytes ''private-key.asc'' (stdout (gpg w (export_argv r))),
       WriteText ''private-key.asc.b64''
         (map (\<lambda>b. char_of (unat b)) (b64encode (stdout (gpg w (export_argv r))))),
       Print ''[setup] Wrote private-key.asc and private-key.asc.b64''],
      Inr ())"
  by (simp add: export_secret_key_def run_succeeded decode_ascii_b64encode Let_def)

lemma execs_append [simp]: "execs (a @ b) = execs a @ execs b"
  by (induction a rule: execs.induct) simp_all

lemma written_append [simp]: "written (a @ b) = written a @ written b"
  by (induction a rule: written.induct) simp_all

lemma posts_append [simp]: "posts (a @ b) = posts a @ posts b"
  by (induction a rule: posts.induct) simp_all

lemma not_keygen [simp]:
  "\<not> is_keygen (Exec (probe_argv r) io)"
  "\<not> is_keygen (Exec (encrypt_argv r src out) io)"
  "\<not> is_keygen (Exec (export_argv r) io)"
  "is_keygen (Exec (keygen_argv r p e) io)"
  by (simp_all add: probe_argv_def encrypt_argv_def export_argv_def keygen_argv_def)

lemma take3_argv [simp]:
  "take 3 (probe_argv r) = [''gpg'', ''--batch'', ''--list-secret-keys'']"
  "take 3 (encrypt_argv r src out) = [''gpg'', ''--batch'', ''--yes'']"
  "take 3 (export_argv r) = [''gpg'', ''--armor'', ''--export-secret-keys'']"
  "take 3 (keygen_argv r p e) = [''gpg'', ''--batch'', ''--passphrase'']"
  by (simp_all add: probe_argv_def encrypt_argv_def export_argv_def keygen_argv_def)

lemma argv_distinct [simp]:
  "probe_argv r \<noteq> keygen_argv r' p e" "keygen_argv r' p e \<noteq> probe_argv r"
  "encrypt_argv r src out \<noteq> keygen_argv r' p e" "keygen_argv r' p e \<noteq> encrypt_argv r src out"
  "export_argv r \<noteq> keygen_argv r' p e" "keygen_argv r' p e \<noteq> export_argv r"
  "encrypt_argv r src out \<noteq> probe_argv r'" "probe_argv r' \<noteq> encrypt_argv r src out"
  "encrypt_argv r src out \<noteq> export_argv r'" "export_argv r' \<noteq> encrypt_argv r src out"
  "probe_argv r \<noteq> export_argv r'" "export_argv r' \<noteq> probe_argv r"
  by (simp_all add: probe_argv_def encrypt_argv_def export_argv_def keygen_argv_def)

lemma export_secret_key_eq:
  "export_secret_key w r =
     (if returncode (gpg w (export_argv r)) \<noteq> 0
      then ([Print ''[setup] Exporting private key artefacts'', Exec (export_argv r) Pipe],
            Inl (CalledProcessError (export_argv r) (returncode (gpg w (export_argv r)))
                   (Some (stderr (gpg w (export_argv r))))))
      else ([Print ''[setup] Exporting private key artefacts'', Exec (export_argv r) Pipe,
             WriteBytes ''private-key.asc'' (stdout (gpg w (export_argv r))),
             WriteText ''private-key.asc.b64''
               (map (\<lambda>b. char_of (unat b)) (b64encode (stdout (gpg w (export_argv r))))),
             Print ''[setup] Wrote private-key.asc and private-key.asc.b64''],
            Inr ()))"
  by (simp add: export_secret_key_failed export_secret_key_succeeded)


lemma bot1_args [simp]:
  "resolve_recipient (namespace_of (world_of g present typed) cli_bot1) = ''bot1''"
  "ns_expire (namespace_of (world_of g present typed) cli_bot1) = ''1y''"
  "ns_source (namespace_of (world_of g present typed) cli_bot1) = ''strategy.py''"
  "ns_output (namespace_of (world_of g present typed) cli_bot1) = ''strategy.py.gpg''"
  by (simp_all add: resolve_recipient_def namespace_of_def cli_bot1_def Let_def)

lemma world_of_sel [simp]:
  "gpg (world_of g present typed) = g"
  "tty_line (world_of g present typed) = typed"
  "path_exists (world_of g present typed) p = present"
  "signal_repr (world_of g present typed) n = None"
  "unicode_printable (world_of g present typed) = latin1_printable"
  by (simp_all add: world_of_def)

lemma setup_main_no_recipient:
  "resolve_recipient (namespace_of w c) = [] \<Longrightarrow>
   setup_main w (Accepted c) = ([], Inl (SystemExit recipient_required))"
  by (simp add: setup_main_def parse_args_def Let_def raise_def)


lemma namespace_of_typed [simp]: "namespace_of (w\<lparr>tty_line := p\<rparr>) c = namespace_of w c"
  by (simp add: namespace_of_def)

lemma setup_script_help: "setup_script w (Help help_text) = ([StdoutWrite help_text], 0)"
  by (simp add: setup_script_def setup_main_def parse_args_def raise_def handle_exit_def
      interpreter_exit_def)

lemma setup_script_usage:
  "setup_script w (UsageError usage message) = ([StderrWrite usage, StderrWrite message], 2)"
  by (simp add: setup_script_def setup_main_def parse_args_def raise_def handle_exit_def
      interpreter_exit_def)

lemma handle_exit_append:
  "handle_exit w (t @ t', r) = (t @ fst (handle_exit w (t', r)), snd (handle_exit w (t', r)))"
  by (simp add: handle_exit_def interpreter_exit_def split: sum.splits exn.splits option.splits)

lemma CalledProcessError_str_typed [simp]:
  "CalledProcessError_str (w\<lparr>tty_line := p\<rparr>) cmd rc = CalledProcessError_str w cmd rc"
  by (simp add: CalledProcessError_str_def split: option.splits)

lemma handle_exit_typed [simp]: "handle_exit (w\<lparr>tty_line := p\<rparr>) m = handle_exit w m"
  by (simp add: handle_exit_def split: prod.splits sum.splits exn.splits option.splits)

lemma after_key_typed [simp]: "after_key (w\<lparr>tty_line := p\<rparr>) r src out = after_key w r src out"
  by (simp add: after_key_def encrypt_strategy_def export_secret_key_def run_def)

lemma setup_script_eq:
  assumes "resolve_recipient (namespace_of w c) \<noteq> []" and "tty_line w \<noteq> []"
  shows "setup_script w (Accepted c) =
     (if returncode (gpg w (probe_argv (resolve_recipient (namespace_of w c)))) = 0 then
        ([GetPass ''GPG passphrase (for new key or future reference): '',
          Exec (probe_argv (resolve_recipient (namespace_of w c))) DevNull,
          Print (''[setup] Reusing existing GPG key '' @ [squote]
                 @ resolve_recipient (namespace_of w c) @ [squote])]
         @ fst (handle_exit w (after_key w (resolve_recipient (namespace_of w c))
                                 (ns_source (namespace_of w c)) (ns_output (namespace_of w c)))),
         snd (handle_exit w (after_key w (resolve_recipient (namespace_of w c))
                                 (ns_source (namespace_of w c)) (ns_output (namespace_of w c)))))
      else if returncode (gpg w (keygen_argv (resolve_recipient (namespace_of w c)) (tty_line w)
                                   (ns_expire (namespace_of w c)))) \<noteq> 0 then
        (GetPass ''GPG passphrase (for new key or future reference): ''
         # Exec (probe_argv (resolve_recipient (namespace_of w c))) DevNull
         # fst (generate_key w (resolve_recipient (namespace_of w c)) (tty_line w)
                  (ns_expire (namespace_of w c)))
         @ [StderrWrite (CalledProcessError_str w
                           (keygen_argv (resolve_recipient (namespace_of w c)) (tty_line w)
                              (ns_expire (namespace_of w c)))
                           (returncode (gpg w (keygen_argv (resolve_recipient (namespace_of w c))
                                                 (tty_line w) (ns_expire (namespace_of w c))))))],
         returncode (gpg w (keygen_argv (resolve_recipient (namespace_of w c)) (tty_line w)
                              (ns_expire (namespace_of w c)))))
      else
        (GetPass ''GPG passphrase (for new key or future reference): ''
         # Exec (probe_argv (resolve_recipient (namespace_of w c))) DevNull
         # fst (generate_key w (resolve_recipient (namespace_of w c)) (tty_line w)
                  (ns_expire (namespace_of w c)))
         @ fst (handle_exit w (after_key w (resolve_recipient (namespace_of w c))
                                 (ns_source (namespace_of w c)) (ns_output (namespace_of w c)))),
         snd (handle_exit w (after_key w (resolve_recipient (namespace_of w c))
                                 (ns_source (namespace_of w c)) (ns_output (namespace_of w c))))))"
proof -
  let ?r = "resolve_recipient (namespace_of w c)"
  let ?F = "after_key w ?r (ns_source (namespace_of w c)) (ns_output (namespace_of w c))"
  have F: "?F = (fst ?F, snd ?F)" by simp
  have m: "setup_main w (Accepted c) =
      (if returncode (gpg w (probe_argv ?r)) = 0 then
         ([GetPass ''GPG passphrase (for new key or future reference): '',
           Exec (probe_argv ?r) DevNull,
           Print (''[setup] Reusing existing GPG key '' @ [squote] @ ?r @ [squote])] @ fst ?F,
          snd ?F)
       else if returncode (gpg w (keygen_argv ?r (tty_line w) (ns_expire (namespace_of w c)))) \<noteq> 0
       then
         (GetPass ''GPG passphrase (for new key or future reference): ''
          # Exec (probe_argv ?r) DevNull
          # fst (generate_key w ?r (tty_line w) (ns_expire (namespace_of w c))),
          Inl (CalledProcessError (keygen_argv ?r (tty_line w) (ns_expire (namespace_of w c)))
                 (returncode (gpg w (keygen_argv ?r (tty_line w) (ns_expire (namespace_of w c)))))
                 None))
       else
         ((GetPass ''GPG passphrase (for new key or future reference): ''
          # Exec (probe_argv ?r) DevNull
          # fst (generate_key w ?r (tty_line w) (ns_expire (namespace_of w c)))) @ fst ?F,
          snd ?F))"
    using assms
    by (simp add: setup_main_def parse_args_def Let_def key_exists_def generate_key_eq
        after_key_def)
  show ?thesis
    unfolding setup_script_def m
    by (simp add: handle_exit_append del: append.simps)
      (simp add: handle_exit_def)
qed



lemma after_key_execs:
  "prefix (execs (fst (handle_exit w (after_key w r src out))))
     [encrypt_argv r src out, export_argv r]"
  by (simp add: after_key_def encrypt_strategy_eq export_secret_key_eq handle_exit_def
      interpreter_exit_def split: option.splits)

lemma after_key_no_keygen:
  "\<not> list_ex is_keygen (fst (handle_exit w (after_key w r src out)))"
  by (simp add: after_key_def encrypt_strategy_eq export_secret_key_eq handle_exit_def
      interpreter_exit_def split: option.splits)

lemma filter_no_keygen: "\<not> list_ex is_keygen t \<Longrightarrow> filter is_keygen t = []"
  by (induction t) simp_all

lemma keygen_fails_rc [simp]:
  "returncode (gpg_keygen_fails (probe_argv r)) = 2"
  "returncode (gpg_keygen_fails (keygen_argv r p e)) = 2"
  "stdout (gpg_keygen_fails (keygen_argv r p e)) = []"
  "stderr (gpg_keygen_fails (keygen_argv r p e)) = []"
  by (simp_all add: gpg_keygen_fails_def probe_argv_def keygen_argv_def)

lemma typed_sel [simp]:
  "gpg (w\<lparr>tty_line := p\<rparr>) = gpg w"
  "path_exists (w\<lparr>tty_line := p\<rparr>) = path_exists w"
  "signal_repr (w\<lparr>tty_line := p\<rparr>) = signal_repr w"
  "unicode_printable (w\<lparr>tty_line := p\<rparr>) = unicode_printable w"
  by simp_all

lemma world_of_typed [simp]:
  "(world_of g present typed)\<lparr>tty_line := p\<rparr> = world_of g present p"
  by (simp add: world_of_def)

lemma no_key_rc [simp]:
  "returncode (gpg_no_key (probe_argv r)) = 2"
  "gpg_no_key (keygen_argv r p e) = gpg_ok (keygen_argv r p e)"
  by (simp_all add: gpg_no_key_def probe_argv_def keygen_argv_def)

lemma export_fails_rc [simp]:
  "returncode (gpg_export_fails (probe_argv r)) = 0"
  "returncode (gpg_export_fails (encrypt_argv r src out)) = 0"
  "returncode (gpg_export_fails (export_argv r)) = 2"
  "stderr (gpg_export_fails (export_argv r)) = [0x67, 0x70, 0x67, 0x3A, 0x20, 0xFC]"
  by (simp_all add: gpg_export_fails_def gpg_ok_def probe_argv_def encrypt_argv_def
      export_argv_def)

lemma decode_latin1: "decode [0x67, 0x70, 0x67, 0x3A, 0x20, 0xFC] = None"
  by (simp add: decode_def)

section \<open>Failures of the external tool\<close>

text \<open>
  A key generation or an encryption that fails has written its standard error straight
  to the terminal (the stream is inherited), and the run exits with the tool's status.
  A failing export exits with the tool's status and writes the captured standard error,
  unchanged, when that is not empty and decodes as UTF-8.
\<close>

lemma keygen_failure_exit:
  assumes "resolve_recipient (namespace_of w c) \<noteq> []" and "tty_line w \<noteq> []"
    and "returncode (gpg w (probe_argv (resolve_recipient (namespace_of w c)))) \<noteq> 0"
    and "returncode (gpg w (keygen_argv (resolve_recipient (namespace_of w c)) (tty_line w)
                              (ns_expire (namespace_of w c)))) \<noteq> 0"
  shows "snd (setup_script w (Accepted c))
         = returncode (gpg w (keygen_argv (resolve_recipient (namespace_of w c)) (tty_line w)
                                (ns_expire (namespace_of w c))))
       \<and> ChildStderr (stderr (gpg w (keygen_argv (resolve_recipient (namespace_of w c)) (tty_line w)
                                     (ns_expire (namespace_of w c)))))
           \<in> set (fst (setup_script w (Accepted c)))"
  using assms(3,4) by (simp add: setup_script_eq [OF assms(1,2)] generate_key_eq)

lemma after_key_encrypt_failure:
  assumes "path_exists w src" and "returncode (gpg w (encrypt_argv r src out)) \<noteq> 0"
  shows "snd (handle_exit w (after_key w r src out)) = returncode (gpg w (encrypt_argv r src out))
       \<and> ChildStderr (stderr (gpg w (encrypt_argv r src out)))
           \<in> set (fst (handle_exit w (after_key w r src out)))"
  using assms by (simp add: after_key_def encrypt_strategy_eq handle_exit_def)

lemma after_key_export_failure:
  assumes "path_exists w src" and "returncode (gpg w (encrypt_argv r src out)) = 0"
    and "returncode (gpg w (export_argv r)) \<noteq> 0"
    and "stderr (gpg w (export_argv r)) \<noteq> []"
    and "decode (stderr (gpg w (export_argv r))) = Some msg"
  shows "snd (handle_exit w (after_key w r src out)) = returncode (gpg w (export_argv r))
       \<and> last (fst (handle_exit w (after_key w r src out))) = StderrWrite msg
       \<and> encode msg = stderr (gpg w (export_argv r))"
proof -
  have "encode msg = stderr (gpg w (export_argv r))"
    using assms(5) by (auto simp: decode_def encode_char_of_unat split: if_splits)
  with assms show ?thesis
    by (simp add: after_key_def encrypt_strategy_eq export_secret_key_eq handle_exit_def)
qed

text \<open>
  \<open>repr\<close> keeps a printable character outside ASCII and escapes the others: the
  e-acute U+00E9 is kept, the no-break space U+00A0 is written \<open>\xa0\<close>, the line
  separator U+2028 \<open>\u2028\<close>, and U+1F600, which the example database does not hold,
  \<open>\U0001f600\<close>.
\<close>

lemma hex_digit_values:
  "hex_digit 0 = CHR ''0''" "hex_digit (Suc 0) = CHR ''1''" "hex_digit 2 = CHR ''2''"
  "hex_digit 6 = CHR ''6''" "hex_digit 8 = CHR ''8''" "hex_digit 10 = CHR ''a''"
  "hex_digit 15 = CHR ''f''"
  by code_simp+

lemma repr_str_escapes:
  "repr_str latin1_printable [CHR 0xC3, CHR 0xA9] = [squote, CHR 0xC3, CHR 0xA9, squote]"
  "repr_str latin1_printable [CHR 0xC2, CHR 0xA0] = [squote, backslash] @ ''xa0'' @ [squote]"
  "repr_str latin1_printable [CHR 0xE2, CHR 0x80, CHR 0xA8]
   = [squote, backslash] @ ''u2028'' @ [squote]"
  "repr_str latin1_printable [CHR 0xF0, CHR 0x9F, CHR 0x98, CHR 0x80]
   = [squote, backslash] @ ''U0001f600'' @ [squote]"
  by (simp_all add: repr_str_def repr_wide_def tail_unit_def low6_def latin1_printable_def
      escape_def nibble_def hex_digit_values Let_def)

text \<open>
  After a failed key generation the handler writes \<open>str(exc)\<close>, which quotes the argv
  of the call, the passphrase included.
\<close>

lemma keygen_failure_report:
  "CalledProcessError_str w (keygen_argv ''bot1'' ''hunter2'' ''1y'') 2
   = ''Command '' @ [squote] @ ''['' @ [squote] @ ''gpg'' @ [squote] @ '', '' @
       [squote] @ ''--batch'' @ [squote] @ '', '' @ [squote] @ ''--passphrase'' @
       [squote] @ '', '' @ [squote] @ ''hunter2'' @ [squote] @ '', '' @ [squote] @
       ''--pinentry-mode'' @ [squote] @ '', '' @ [squote] @ ''loopback'' @ [squote] @
       '', '' @ [squote] @ ''--quick-gen-key'' @ [squote] @ '', '' @ [squote] @
       ''bot1'' @ [squote] @ '', '' @ [squote] @ ''rsa4096'' @ [squote] @ '', '' @
       [squote] @ ''sign,encrypt'' @ [squote] @ '', '' @ [squote] @ ''1y'' @ [squote] @
       '']'' @ [squote] @ '' returned non-zero exit status 2.''"
proof -
  have d: "str_int 2 = ''2''"
    by code_simp
  show ?thesis
    by (simp add: CalledProcessError_str_def keygen_argv_def repr_str_list_def repr_str_def
        repr_char_def d Let_def)
qed

section \<open>The registration script, step by step\<close>

lemma leading_space_Nil [simp]: "leading_space [] = None"
  by (simp add: leading_space_def py_whitespace_def)

lemma trailing_space_Nil [simp]: "trailing_space [] = None"
  by (simp add: trailing_space_def py_whitespace_def)

lemma strip_Nil [simp]: "strip [] = []"
  by (simp add: strip_def lstrip.simps rstrip.simps)

lemma all_space_lstrip: "all_space s \<Longrightarrow> lstrip s = []"
proof (induction s rule: all_space.induct)
  case (1 s)
  show ?case
  proof (cases "s = []")
    case True
    then show ?thesis by (simp add: lstrip.simps)
  next
    case False
    with "1.prems" obtain w where w: "leading_space s = Some w" and a: "all_space (drop (length w) s)"
      by (subst (asm) all_space.simps) (auto split: option.splits)
    from "1.IH" [OF False w a] w show ?thesis
      by (subst lstrip.simps) simp
  qed
qed

lemma all_space_strip: "all_space s \<Longrightarrow> strip s = []"
  by (simp add: strip_def all_space_lstrip rstrip.simps)

lemma interpreter_exit_append:
  "interpreter_exit (t @ t', r)
   = (t @ fst (interpreter_exit (t', r)), snd (interpreter_exit (t', r)))"
  by (simp add: interpreter_exit_def split: sum.splits exn.splits)

lemma interpreter_exit_Cons:
  "interpreter_exit (e # t', r)
   = (e # fst (interpreter_exit (t', r)), snd (interpreter_exit (t', r)))"
  using interpreter_exit_append [of "[e]" t' r] by simp

lemma interpreter_exit_raise [simp]:
  "interpreter_exit (raise (SystemExit msg)) = ([StderrWrite (msg @ [newline])], 1)"
  by (simp add: interpreter_exit_def raise_def)

lemma submit_exit:
  "interpreter_exit (submit printable post u tok name repo)
   = ([Print (''[register] Using endpoint '' @ rstrip_slash u @ ''/register''),
       Print (''[register] Configuring auto-trigger for repo: '' @ repo),
       Print ''[register] Using GAME_TOKEN for both authentication and workflow triggering'',
       HttpPost (register_request (rstrip_slash u) tok name repo)]
      @ fst (interpreter_exit
               (read_response printable repo (post (register_request (rstrip_slash u) tok name repo)))),
      snd (interpreter_exit
             (read_response printable repo (post (register_request (rstrip_slash u) tok name repo)))))"
proof -
  obtain t r where m: "read_response printable repo (post (register_request (rstrip_slash u) tok name repo))
                       = (t, r)"
    by (cases "read_response printable repo (post (register_request (rstrip_slash u) tok name repo))")
  show ?thesis
    by (simp add: submit_def Let_def m interpreter_exit_Cons)
qed

lemma register_script_eq:
  "register_script printable env post =
     (let PLAYER_NAME = strip (getenv env ''PLAYER_NAME'' ''encrypted-template'');
          server_url = strip (getenv env ''SERVER_URL'' []);
          github_token = strip (getenv env ''GAME_TOKEN'' []);
          github_repo = strip (getenv env ''GITHUB_REPOSITORY'' (getenv env ''GITHUB_REPO'' []));
          config = Print (''[register] Config state: SERVER_URL='' @ set_or_missing server_url
                           @ '', GAME_TOKEN='' @ set_or_missing github_token
                           @ '', PLAYER_NAME='' @ set_or_missing PLAYER_NAME
                           @ '', GITHUB_REPO='' @ set_or_missing github_repo)
      in if server_url = [] then
           ([config, StderrWrite (''SERVER_URL environment variable not set'' @ [newline])], 1)
         else if github_token = [] then
           ([config, StderrWrite (''GAME_TOKEN environment variable not set'' @ [newline])], 1)
         else if PLAYER_NAME = [] then
           ([config, StderrWrite (''PLAYER_NAME environment variable not set'' @ [newline])], 1)
         else if github_repo = [] then
           ([config, StderrWrite (''GITHUB_REPO or GITHUB_REPOSITORY environment variable not set''
                                  @ [newline])], 1)
         else if \<not> startswith server_url [''http://'', ''https://''] then
           ([config, StderrWrite (''SERVER_URL must include scheme (http/https); got ''
                                  @ [squote] @ server_url @ [squote] @ [newline])], 1)
         else (config # fst (interpreter_exit
                               (submit printable post server_url github_token PLAYER_NAME github_repo)),
               snd (interpreter_exit
                      (submit printable post server_url github_token PLAYER_NAME github_repo))))"
proof -
  obtain t r where m: "submit printable post (strip (getenv env ''SERVER_URL'' []))
        (strip (getenv env ''GAME_TOKEN'' []))
        (strip (getenv env ''PLAYER_NAME'' ''encrypted-template''))
        (strip (getenv env ''GITHUB_REPOSITORY'' (getenv env ''GITHUB_REPO'' []))) = (t, r)"
    by (cases "submit printable post (strip (getenv env ''SERVER_URL'' []))
        (strip (getenv env ''GAME_TOKEN'' []))
        (strip (getenv env ''PLAYER_NAME'' ''encrypted-template''))
        (strip (getenv env ''GITHUB_REPOSITORY'' (getenv env ''GITHUB_REPO'' [])))")
  show ?thesis
    by (simp add: register_script_def register_main_def Let_def m interpreter_exit_Cons)
qed

lemma strip_examples [simp]:
  "strip ''https://example.org/ '' = ''https://example.org/''"
  "strip '' t0ken'' = ''t0ken''"
  "strip ''alice/bot'' = ''alice/bot''"
  "strip ''encrypted-template'' = ''encrypted-template''"
  "strip ''  '' = []"
  by code_simp+

lemma all_space_blank: "all_space ''  ''"
  by code_simp

lemma rstrip_slash_example [simp]: "rstrip_slash ''https://example.org/'' = ''https://example.org''"
  by (simp add: rstrip_slash_def)

lemma startswith_example [simp]: "startswith ''https://example.org/'' [''http://'', ''https://'']"
  by (simp add: startswith_def)

lemma env_ok_values [simp]:
  "getenv env_ok ''SERVER_URL'' [] = ''https://example.org/ ''"
  "getenv env_ok ''GAME_TOKEN'' [] = '' t0ken''"
  "getenv env_ok ''PLAYER_NAME'' ''encrypted-template'' = ''encrypted-template''"
  "getenv env_ok ''GITHUB_REPOSITORY'' d = ''alice/bot''"
  by (simp_all add: getenv_def env_ok_def env_of_def)

lemma env_no_token_values [simp]:
  "getenv env_no_token ''SERVER_URL'' [] = ''https://example.org/ ''"
  "getenv env_no_token ''GAME_TOKEN'' [] = []"
  "getenv env_no_token ''PLAYER_NAME'' ''encrypted-template'' = ''encrypted-template''"
  "getenv env_no_token ''GITHUB_REPOSITORY'' (getenv env_no_token ''GITHUB_REPO'' []) = []"
  by (simp_all add: getenv_def env_no_token_def env_of_def)

lemma env_blank_repo_values [simp]:
  "getenv env_blank_repo ''SERVER_URL'' [] = ''https://example.org/ ''"
  "getenv env_blank_repo ''GAME_TOKEN'' [] = '' t0ken''"
  "getenv env_blank_repo ''PLAYER_NAME'' ''encrypted-template'' = ''encrypted-template''"
  "getenv env_blank_repo ''GITHUB_REPOSITORY'' d = ''  ''"
  "env_blank_repo ''GITHUB_REPOSITORY'' = Some ''  ''"
  "env_blank_repo ''GITHUB_REPO'' = Some ''alice/bot''"
  by (simp_all add: getenv_def env_blank_repo_def env_of_def)

lemma read_response_not_json:
  assumes "200 \<le> status_code resp" and "status_code resp < 300" and "body_json resp = Inl ValueError"
  shows "interpreter_exit (read_response printable repo (Inr resp))
         = ([Print ''Registration succeeded but response was not JSON.''], 0)"
  using assms by (simp add: read_response_def ok_def interpreter_exit_def emit_def)

lemma seq_lift: "seq (lift r) f = (case r of Inl e \<Rightarrow> ([], Inl e) | Inr x \<Rightarrow> f x)"
  by (cases r) simp_all

lemma posts_interpreter_exit [simp]: "posts (fst (interpreter_exit m)) = posts (fst m)"
  by (cases m) (simp add: interpreter_exit_def split: sum.splits exn.splits)

lemma posts_report_payload [simp]: "posts (fst (report_payload printable repo payload)) = []"
  by (simp add: report_payload_def seq_lift split: sum.splits)

lemma posts_read_response [simp]: "posts (fst (read_response printable repo outcome)) = []"
  by (simp add: read_response_def raise_def split: sum.splits)

lemma posts_register_script:
  "posts (fst (register_script printable env post)) = (if accepted env then [sent_request env] else [])"
  by (simp add: register_script_eq Let_def submit_exit)

lemma strip_getenv_blank:
  "all_space v \<Longrightarrow> strip (getenv (env(k \<mapsto> v)) k' d) = strip (getenv (env(k \<mapsto> [])) k' d)"
  by (simp add: getenv_def all_space_strip)

lemma strip_getenv2_blank:
  "all_space v \<Longrightarrow>
   strip (getenv (env(k \<mapsto> v)) k' (getenv (env(k \<mapsto> v)) k'' d))
   = strip (getenv (env(k \<mapsto> [])) k' (getenv (env(k \<mapsto> [])) k'' d))"
  by (simp add: getenv_def all_space_strip split: option.splits)

lemma register_script_blank:
  assumes "all_space v"
  shows "register_script printable (env(k \<mapsto> v)) post
         = register_script printable (env(k \<mapsto> [])) post"
  by (simp only: register_script_def register_main_def strip_getenv2_blank [OF assms])
    (simp only: strip_getenv_blank [OF assms])

lemma rejected_aux:
  "\<not> accepted env \<Longrightarrow>
   snd (register_script printable env post) = 1 \<and> posts (fst (register_script printable env post)) = []"
  by (auto simp: register_script_eq Let_def)

lemma report_payload_not_dict:
  "\<forall>kvs. payload \<noteq> JDict kvs \<Longrightarrow>
   report_payload printable repo payload = ([], Inl AttributeError)"
  by (cases payload) (simp_all add: report_payload_def)

lemma report_payload_status:
  "report_payload printable repo (JDict kvs) =
     (case (case map_of kvs ''status'' of None \<Rightarrow> JNull | Some v \<Rightarrow> v) of
        JStr s \<Rightarrow>
          if lower s = ''registered'' then
            ([Print (''Player '' @ [squote]
                     @ py_str printable (case map_of kvs ''player_name'' of None \<Rightarrow> JNull | Some v \<Rightarrow> v)
                     @ [squote] @ '' registered with id ''
                     @ py_str printable (case map_of kvs ''player_id'' of None \<Rightarrow> JNull | Some v \<Rightarrow> v)
                     @ ''.''),
              Print (check_mark @ '' Auto-trigger configured for repo: '' @ repo)], Inr ())
          else if lower s = ''already_registered'' then
            ([Print (''Player '' @ [squote]
                     @ py_str printable (case map_of kvs ''player_name'' of None \<Rightarrow> JNull | Some v \<Rightarrow> v)
                     @ [squote] @ '' already registered. Using id ''
                     @ py_str printable (case map_of kvs ''player_id'' of None \<Rightarrow> JNull | Some v \<Rightarrow> v)
                     @ ''.'')], Inr ())
          else ([Print (''Registration response: '' @ py_str printable (JDict kvs))], Inr ())
      | v \<Rightarrow>
          if truthy v then ([], Inl AttributeError)
          else ([Print (''Registration response: '' @ py_str printable (JDict kvs))], Inr ()))"
  by (simp add: report_payload_def emit_def lower_def split: json.splits)

subsection \<open>A success response that is not JSON\<close>

text \<open>
  For every registration attempt (the configuration was accepted and the request sent)
  that receives a response with a status from 200 to 299 on whose body
  \<open>response.json()\<close> raises \<open>ValueError\<close>, the script prints the notice that the
  response was not JSON and exits with status 0: nothing is raised and nothing is written
  to standard error.
\<close>

lemma value_error_exits_zero:
  assumes "accepted env"
    and "post (sent_request env) = Inr resp"
    and "200 \<le> status_code resp" and "status_code resp < 300"
    and "body_json resp = Inl ValueError"
  shows "register_script printable env post
         = ([Print (config_line env),
             Print (''[register] Using endpoint '' @ rstrip_slash (cfg_server_url env)
                    @ ''/register''),
             Print (''[register] Configuring auto-trigger for repo: '' @ cfg_repo env),
             Print ''[register] Using GAME_TOKEN for both authentication and workflow triggering'',
             HttpPost (sent_request env),
             Print ''Registration succeeded but response was not JSON.''], 0)"
  using assms(1)
  by (simp add: register_script_eq Let_def submit_exit assms(2)
      read_response_not_json [OF assms(3,4,5)])

lemma value_error_exits_zero_example:
  "accepted env_ok
   \<and> server_says 200 ''<html>ok</html>'' (Inl ValueError) (sent_request env_ok)
     = Inr \<lparr> status_code = 200, body_text = ''<html>ok</html>'', body_json = Inl ValueError \<rparr>
   \<and> register_script latin1_printable env_ok (server_says 200 ''<html>ok</html>'' (Inl ValueError))
     = ([Print ''[register] Config state: SERVER_URL=set, GAME_TOKEN=set, PLAYER_NAME=set, GITHUB_REPO=set'',
         Print ''[register] Using endpoint https://example.org/register'',
         Print ''[register] Configuring auto-trigger for repo: alice/bot'',
         Print ''[register] Using GAME_TOKEN for both authentication and workflow triggering'',
         HttpPost \<lparr> url = ''https://example.org/register'',
                    headers = [(''Content-Type'', ''application/json''),
                               (''Authorization'', ''Bearer t0ken'')],
                    body = [(''player_name'', ''encrypted-template''),
                            (''github_repo'', ''alice/bot'')],
                    timeout = 10 \<rparr>,
         Print ''Registration succeeded but response was not JSON.''], 0)"
proof -
  have h: "accepted env_ok"
    by simp
  have p: "server_says 200 ''<html>ok</html>'' (Inl ValueError) (sent_request env_ok)
           = Inr \<lparr> status_code = 200, body_text = ''<html>ok</html>'', body_json = Inl ValueError \<rparr>"
    by (simp add: server_says_def)
  show ?thesis
    using h p
      value_error_exits_zero [of env_ok "server_says 200 ''<html>ok</html>'' (Inl ValueError)"
        "\<lparr> status_code = 200, body_text = ''<html>ok</html>'', body_json = Inl ValueError \<rparr>"
        latin1_printable, OF h p]
    by (simp add: set_or_missing_def register_request_def)
qed

section \<open>The claims\<close>

text \<open>
  C4. For every successful key export, base64-decoding the contents of the written file
  \<open>private-key.asc.b64\<close> gives, byte for byte, the contents of the written file
  \<open>private-key.asc\<close>: when the export call of \<open>gpg\<close> exits with status 0,
  \<open>export_secret_key\<close> returns normally, and whatever the files held before, afterwards
  \<open>private-key.asc\<close> holds the standard output of the call and \<open>private-key.asc.b64\<close>
  holds bytes that \<open>b64decode\<close> turns into exactly those.
\<close>

theorem export_b64_decodes_to_asc:
  assumes "returncode (gpg w (export_argv recipient)) = 0"
  shows "snd (export_secret_key w recipient) = Inr ()
       \<and> files_after (fst (export_secret_key w recipient)) fs ''private-key.asc''
           = Some (stdout (gpg w (export_argv recipient)))
       \<and> (\<exists>b64. files_after (fst (export_secret_key w recipient)) fs ''private-key.asc.b64''
                   = Some b64
                 \<and> b64decode b64
                   = files_after (fst (export_secret_key w recipient)) fs ''private-key.asc'')"
  by (simp add: export_secret_key_succeeded [OF assms] files_after_def encode_char_of_unat
      b64decode_b64encode)

theorem export_b64_decodes_to_asc_witness:
  "returncode (gpg (world_of gpg_ok True ''hunter2'') (export_argv ''bot1'')) = 0
   \<and> snd (export_secret_key (world_of gpg_ok True ''hunter2'') ''bot1'') = Inr ()
   \<and> files_after (fst (export_secret_key (world_of gpg_ok True ''hunter2'') ''bot1''))
        Map.empty ''private-key.asc'' = Some [0x2D, 0x2D, 0x2D, 0x0A]
   \<and> (\<exists>b64. files_after (fst (export_secret_key (world_of gpg_ok True ''hunter2'') ''bot1''))
                Map.empty ''private-key.asc.b64'' = Some b64
              \<and> b64decode b64 = Some [0x2D, 0x2D, 0x2D, 0x0A])"
proof -
  have h: "returncode (gpg (world_of gpg_ok True ''hunter2'') (export_argv ''bot1'')) = 0"
    by (simp add: world_of_def gpg_ok_def)
  have s: "stdout (gpg (world_of gpg_ok True ''hunter2'') (export_argv ''bot1''))
           = [0x2D, 0x2D, 0x2D, 0x0A]"
    by (simp add: world_of_def gpg_ok_def)
  show ?thesis
    using h export_b64_decodes_to_asc [OF h, of Map.empty] by (auto simp: s gpg_ok_def)
qed

text \<open>
  C3. In every execution that reaches the keystore probe (the command line was
  accepted, an identity was resolved and the passphrase is not empty): when the probe exits with status 0, key generation is
  never invoked - the external calls of the run are an initial part of probe,
  encryption, export, no event of the trace is a key-generation call, and the trace
  starts with the prompt, the probe and the one informational line about reusing the key;
  when the probe exits with any other status, \<open>key_exists\<close> raises nothing and returns
  \<open>False\<close>, and the next external call is the key generation.
\<close>

theorem probe_before_generate:
  assumes "resolve_recipient (namespace_of w c) \<noteq> []" and "tty_line w \<noteq> []"
  shows "if returncode (gpg w (probe_argv (resolve_recipient (namespace_of w c)))) = 0
         then prefix (execs (fst (setup_script w (Accepted c))))
                [probe_argv (resolve_recipient (namespace_of w c)),
                 encrypt_argv (resolve_recipient (namespace_of w c)) (ns_source (namespace_of w c))
                   (ns_output (namespace_of w c)),
                 export_argv (resolve_recipient (namespace_of w c))]
              \<and> \<not> list_ex is_keygen (fst (setup_script w (Accepted c)))
              \<and> take 3 (fst (setup_script w (Accepted c)))
                = [GetPass ''GPG passphrase (for new key or future reference): '',
                   Exec (probe_argv (resolve_recipient (namespace_of w c))) DevNull,
                   Print (''[setup] Reusing existing GPG key '' @ [squote]
                          @ resolve_recipient (namespace_of w c) @ [squote])]
         else key_exists w (resolve_recipient (namespace_of w c))
                = ([Exec (probe_argv (resolve_recipient (namespace_of w c))) DevNull], Inr False)
              \<and> take 2 (execs (fst (setup_script w (Accepted c))))
                = [probe_argv (resolve_recipient (namespace_of w c)),
                   keygen_argv (resolve_recipient (namespace_of w c)) (tty_line w)
                     (ns_expire (namespace_of w c))]"
  using after_key_execs [of w "resolve_recipient (namespace_of w c)" "ns_source (namespace_of w c)"
      "ns_output (namespace_of w c)"]
    after_key_no_keygen [of w "resolve_recipient (namespace_of w c)" "ns_source (namespace_of w c)"
      "ns_output (namespace_of w c)"]
  by (simp add: setup_script_eq [OF assms] key_exists_def generate_key_eq)

theorem probe_before_generate_witness:
  "resolve_recipient (namespace_of (world_of gpg_ok True ''hunter2'') cli_bot1) \<noteq> []
   \<and> tty_line (world_of gpg_ok True ''hunter2'') \<noteq> []
   \<and> returncode (gpg (world_of gpg_ok True ''hunter2'') (probe_argv ''bot1'')) = 0
   \<and> prefix (execs (fst (setup_script (world_of gpg_ok True ''hunter2'') (Accepted cli_bot1))))
        [probe_argv ''bot1'', encrypt_argv ''bot1'' ''strategy.py'' ''strategy.py.gpg'',
         export_argv ''bot1'']
   \<and> \<not> list_ex is_keygen (fst (setup_script (world_of gpg_ok True ''hunter2'') (Accepted cli_bot1)))
   \<and> returncode (gpg (world_of gpg_no_key True ''hunter2'') (probe_argv ''bot1'')) = 2
   \<and> take 2 (execs (fst (setup_script (world_of gpg_no_key True ''hunter2'') (Accepted cli_bot1))))
      = [probe_argv ''bot1'', keygen_argv ''bot1'' ''hunter2'' ''1y'']"
proof -
  have a: "resolve_recipient (namespace_of (world_of gpg_ok True ''hunter2'') cli_bot1) \<noteq> []"
    and b: "tty_line (world_of gpg_ok True ''hunter2'') \<noteq> []"
    and a': "resolve_recipient (namespace_of (world_of gpg_no_key True ''hunter2'') cli_bot1) \<noteq> []"
    and b': "tty_line (world_of gpg_no_key True ''hunter2'') \<noteq> []"
    by simp_all
  have k: "returncode (gpg_ok (probe_argv ''bot1'')) = 0"
    by (simp add: gpg_ok_def)
  have k': "returncode (gpg_no_key (probe_argv ''bot1'')) = 2"
    by (simp add: gpg_no_key_def probe_argv_def)
  show ?thesis
    using probe_before_generate [OF a b] probe_before_generate [OF a' b'] k k'
    by simp
qed




text \<open>
  C1, as amended. The passphrase is read with \<open>getpass\<close> (echo off) and is placed in
  the argv of exactly one external call, the key generation, which runs only when the
  probe finds no key; it is in the argv of no other call. Nothing the script prints to
  standard output, nothing it writes to a file and no other event of the run depends on
  it; when the key exists or the key generation succeeds, nothing the script writes to
  standard error depends on it either. Formally: two runs that differ only in the
  (non-empty) passphrase typed, with \<open>gpg\<close> answering the two key-generation calls alike,
  have the same exit status and the same trace once the key-generation call and the
  script's own writes to standard error are left out, and the only key-generation call
  is the one built from the passphrase typed. A run that the argument parser ends (help
  or a refused command line) never reaches the prompt and is the same whatever would have
  been typed.
\<close>

theorem passphrase_reaches_keygen_only:
  assumes "p \<noteq> []" and "p' \<noteq> []"
    and "gpg w (keygen_argv (resolve_recipient (namespace_of w c)) p (ns_expire (namespace_of w c)))
       = gpg w (keygen_argv (resolve_recipient (namespace_of w c)) p' (ns_expire (namespace_of w c)))"
  shows "filter (\<lambda>ev. \<not> is_keygen ev \<and> \<not> is_stderr_write ev)
             (fst (setup_script (w\<lparr>tty_line := p\<rparr>) (Accepted c)))
         = filter (\<lambda>ev. \<not> is_keygen ev \<and> \<not> is_stderr_write ev)
             (fst (setup_script (w\<lparr>tty_line := p'\<rparr>) (Accepted c)))
       \<and> snd (setup_script (w\<lparr>tty_line := p\<rparr>) (Accepted c)) = snd (setup_script (w\<lparr>tty_line := p'\<rparr>) (Accepted c))
       \<and> filter is_keygen (fst (setup_script (w\<lparr>tty_line := p\<rparr>) (Accepted c)))
         = (if resolve_recipient (namespace_of w c) \<noteq> []
               \<and> returncode (gpg w (probe_argv (resolve_recipient (namespace_of w c)))) \<noteq> 0
            then [Exec (keygen_argv (resolve_recipient (namespace_of w c)) p
                          (ns_expire (namespace_of w c))) Inherit]
            else [])
       \<and> (returncode (gpg w (probe_argv (resolve_recipient (namespace_of w c)))) = 0
           \<or> returncode (gpg w (keygen_argv (resolve_recipient (namespace_of w c)) p
                                   (ns_expire (namespace_of w c)))) = 0
          \<longrightarrow> filter (\<lambda>ev. \<not> is_keygen ev) (fst (setup_script (w\<lparr>tty_line := p\<rparr>) (Accepted c)))
              = filter (\<lambda>ev. \<not> is_keygen ev) (fst (setup_script (w\<lparr>tty_line := p'\<rparr>) (Accepted c))))
       \<and> setup_script (w\<lparr>tty_line := p\<rparr>) (Help help_text)
         = setup_script (w\<lparr>tty_line := p'\<rparr>) (Help help_text)
       \<and> setup_script (w\<lparr>tty_line := p\<rparr>) (UsageError usage message)
         = setup_script (w\<lparr>tty_line := p'\<rparr>) (UsageError usage message)"
proof (cases "resolve_recipient (namespace_of w c) = []")
  case True
  then show ?thesis
    by (simp add: setup_script_help setup_script_usage)
      (simp add: setup_script_def handle_exit_def setup_main_no_recipient interpreter_exit_def)
next
  case False
  have r: "resolve_recipient (namespace_of (w\<lparr>tty_line := p\<rparr>) c) \<noteq> []"
    and r': "resolve_recipient (namespace_of (w\<lparr>tty_line := p'\<rparr>) c) \<noteq> []"
    using False by simp_all
  have t: "tty_line (w\<lparr>tty_line := p\<rparr>) \<noteq> []" and t': "tty_line (w\<lparr>tty_line := p'\<rparr>) \<noteq> []"
    using assms by simp_all
  note nk = after_key_no_keygen [of w "resolve_recipient (namespace_of w c)"
      "ns_source (namespace_of w c)" "ns_output (namespace_of w c)"]
  show ?thesis
    using assms(3) nk
    by (simp add: setup_script_eq [OF r t] setup_script_eq [OF r' t'] generate_key_eq
        filter_no_keygen False setup_script_help setup_script_usage)
qed

theorem passphrase_reaches_keygen_only_witness:
  "''hunter2'' \<noteq> [] \<and> ''swordfish'' \<noteq> []
   \<and> gpg (world_of gpg_no_key True []) (keygen_argv ''bot1'' ''hunter2'' ''1y'')
     = gpg (world_of gpg_no_key True []) (keygen_argv ''bot1'' ''swordfish'' ''1y'')
   \<and> filter (\<lambda>ev. \<not> is_keygen ev \<and> \<not> is_stderr_write ev)
        (fst (setup_script (world_of gpg_no_key True ''hunter2'') (Accepted cli_bot1)))
     = filter (\<lambda>ev. \<not> is_keygen ev \<and> \<not> is_stderr_write ev)
        (fst (setup_script (world_of gpg_no_key True ''swordfish'') (Accepted cli_bot1)))
   \<and> snd (setup_script (world_of gpg_no_key True ''hunter2'') (Accepted cli_bot1))
     = snd (setup_script (world_of gpg_no_key True ''swordfish'') (Accepted cli_bot1))
   \<and> filter is_keygen (fst (setup_script (world_of gpg_no_key True ''hunter2'') (Accepted cli_bot1)))
     = [Exec (keygen_argv ''bot1'' ''hunter2'' ''1y'') Inherit]"
proof -
  have a: "''hunter2'' \<noteq> []" and b: "''swordfish'' \<noteq> []"
    by simp_all
  have g: "gpg (world_of gpg_no_key True [])
             (keygen_argv (resolve_recipient (namespace_of (world_of gpg_no_key True []) cli_bot1))
                ''hunter2'' (ns_expire (namespace_of (world_of gpg_no_key True []) cli_bot1)))
         = gpg (world_of gpg_no_key True [])
             (keygen_argv (resolve_recipient (namespace_of (world_of gpg_no_key True []) cli_bot1))
                ''swordfish'' (ns_expire (namespace_of (world_of gpg_no_key True []) cli_bot1)))"
    by (simp add: gpg_ok_def)
  show ?thesis
    using passphrase_reaches_keygen_only [OF a b g] by (simp add: gpg_ok_def)
qed

text \<open>
  C1 as stated fails: with no key in the keystore, the passphrase typed is the fourth
  element of the argv of the key-generation call.
\<close>

theorem passphrase_in_keygen_argv:
  "tty_line (world_of gpg_no_key True ''hunter2'') = ''hunter2''
   \<and> Exec [''gpg'', ''--batch'', ''--passphrase'', ''hunter2'', ''--pinentry-mode'', ''loopback'',
            ''--quick-gen-key'', ''bot1'', ''rsa4096'', ''sign,encrypt'', ''1y''] Inherit
       \<in> set (fst (setup_script (world_of gpg_no_key True ''hunter2'') (Accepted cli_bot1)))"
  by (simp add: setup_script_eq generate_key_eq keygen_argv_def)

text \<open>
  C6 at a failing export: \<open>gpg\<close> exits with status 2 and writes \<open>gpg: \<close> and the byte
  \<open>0xFC\<close> to its standard error, which is not UTF-8. The handler's
  \<open>exc.stderr.decode()\<close> raises \<open>UnicodeDecodeError\<close>: the run ends with a
  traceback and status 1, and the script writes nothing of the tool's standard error.
\<close>

theorem export_failure_not_utf8:
  "returncode (gpg_export_fails (export_argv ''bot1'')) = 2
   \<and> stderr (gpg_export_fails (export_argv ''bot1'')) = [0x67, 0x70, 0x67, 0x3A, 0x20, 0xFC]
   \<and> snd (setup_script (world_of gpg_export_fails True ''hunter2'') (Accepted cli_bot1)) = 1
   \<and> last (fst (setup_script (world_of gpg_export_fails True ''hunter2'') (Accepted cli_bot1)))
     = Traceback UnicodeDecodeError
   \<and> filter is_stderr_write (fst (setup_script (world_of gpg_export_fails True ''hunter2'') (Accepted cli_bot1)))
     = []"
  by (simp add: setup_script_eq after_key_def encrypt_strategy_eq export_secret_key_eq
      handle_exit_def decode_latin1)

text \<open>
  C7. A value is missing when it is empty after the default and \<open>strip\<close> (what the
  diagnostic line calls \<open>missing\<close>). For every configuration in which the server URL,
  the token, the player name or the repository identifier is missing, or the server URL
  does not start with \<open>http://\<close> or \<open>https://\<close>, the run is the diagnostic line, the
  message of the first check that fails on standard error, and exit status 1; no HTTP
  request is made.
\<close>

theorem rejected_configuration_makes_no_request:
  assumes "\<not> accepted env"
  shows "register_script printable env post
         = ([Print (config_line env),
             StderrWrite
               ((if cfg_server_url env = [] then ''SERVER_URL environment variable not set''
                 else if cfg_token env = [] then ''GAME_TOKEN environment variable not set''
                 else if cfg_player_name env = [] then ''PLAYER_NAME environment variable not set''
                 else if cfg_repo env = [] then
                   ''GITHUB_REPO or GITHUB_REPOSITORY environment variable not set''
                 else ''SERVER_URL must include scheme (http/https); got '' @ [squote]
                      @ cfg_server_url env @ [squote])
                @ [newline])], 1)
       \<and> posts (fst (register_script printable env post)) = []"
  using assms by (auto simp: register_script_eq Let_def)

theorem rejected_configuration_makes_no_request_witness:
  "\<not> accepted env_no_token
   \<and> env_no_token ''GAME_TOKEN'' = None
   \<and> register_script latin1_printable env_no_token (server_says 200 [] (Inl ValueError))
     = ([Print ''[register] Config state: SERVER_URL=set, GAME_TOKEN=missing, PLAYER_NAME=set, GITHUB_REPO=missing'',
         StderrWrite (''GAME_TOKEN environment variable not set'' @ [newline])], 1)
   \<and> posts (fst (register_script latin1_printable env_no_token (server_says 200 [] (Inl ValueError)))) = []"
proof -
  have h: "\<not> accepted env_no_token"
    by simp
  have u: "env_no_token ''GAME_TOKEN'' = None"
    by (simp add: env_no_token_def env_of_def)
  show ?thesis
    using h u rejected_configuration_makes_no_request
        [OF h, of latin1_printable "server_says 200 [] (Inl ValueError)"]
    by (simp add: set_or_missing_def)
qed

text \<open>
  C8 at a failing body: the server answers 200 with a body of 100000 opening square
  brackets. The body is not JSON, but what \<open>response.json()\<close> raises on it is the
  parser's \<open>RecursionError\<close>, which is not a \<open>ValueError\<close>: \<open>except ValueError\<close> does
  not catch it, the notice is not printed, and the run ends with a traceback and exit
  status 1. (\<open>value_error_exits_zero\<close> above: when the parse raises \<open>ValueError\<close> the
  run is what the claim says.)
\<close>

theorem deeply_nested_body_crashes:
  "accepted env_ok
   \<and> ok \<lparr> status_code = 200, body_text = deep_brackets, body_json = Inl RecursionError \<rparr>
   \<and> register_script latin1_printable env_ok (server_says 200 deep_brackets (Inl RecursionError))
     = ([Print ''[register] Config state: SERVER_URL=set, GAME_TOKEN=set, PLAYER_NAME=set, GITHUB_REPO=set'',
         Print ''[register] Using endpoint https://example.org/register'',
         Print ''[register] Configuring auto-trigger for repo: alice/bot'',
         Print ''[register] Using GAME_TOKEN for both authentication and workflow triggering'',
         HttpPost \<lparr> url = ''https://example.org/register'',
                    headers = [(''Content-Type'', ''application/json''),
                               (''Authorization'', ''Bearer t0ken'')],
                    body = [(''player_name'', ''encrypted-template''),
                            (''github_repo'', ''alice/bot'')],
                    timeout = 10 \<rparr>,
         Traceback RecursionError], 1)"
proof -
  have r: "interpreter_exit
             (read_response printable repo (server_says 200 content (Inl RecursionError) q))
           = ([Traceback RecursionError], 1)" for printable repo content q
    by (simp add: server_says_def read_response_def ok_def raise_def interpreter_exit_def)
  show ?thesis
    by (simp add: register_script_eq Let_def submit_exit r set_or_missing_def
        register_request_def ok_def)
qed

text \<open>
  C9. For every environment in which \<open>GITHUB_REPOSITORY\<close> is defined but empty or
  white space only while \<open>GITHUB_REPO\<close> is defined and not empty, the repository
  identifier is read as empty: the run exits with status 1 without an HTTP request, its
  diagnostic line reports \<open>GITHUB_REPO=missing\<close>, and when the three other values are
  present the fatal message is the one about the repository variables. With
  \<open>GITHUB_REPOSITORY\<close> unset instead, the identifier is the stripped \<open>GITHUB_REPO\<close>.
\<close>

theorem blank_repository_variable_blocks_fallback:
  assumes "env ''GITHUB_REPOSITORY'' = Some v" and "all_space v"
    and "env ''GITHUB_REPO'' = Some v'" and "v' \<noteq> []"
  shows "cfg_repo env = []
       \<and> snd (register_script printable env post) = 1
       \<and> posts (fst (register_script printable env post)) = []
       \<and> hd (fst (register_script printable env post))
         = Print (''[register] Config state: SERVER_URL='' @ set_or_missing (cfg_server_url env)
                  @ '', GAME_TOKEN='' @ set_or_missing (cfg_token env)
                  @ '', PLAYER_NAME='' @ set_or_missing (cfg_player_name env)
                  @ '', GITHUB_REPO=missing'')
       \<and> (cfg_server_url env \<noteq> [] \<and> cfg_token env \<noteq> [] \<and> cfg_player_name env \<noteq> []
          \<longrightarrow> last (fst (register_script printable env post))
              = StderrWrite (''GITHUB_REPO or GITHUB_REPOSITORY environment variable not set''
                             @ [newline]))
       \<and> cfg_repo (env(''GITHUB_REPOSITORY'' := None)) = strip v'"
proof -
  have r: "cfg_repo env = []"
    using assms(1,2) by (simp add: getenv_def all_space_strip)
  have f: "cfg_repo (env(''GITHUB_REPOSITORY'' := None)) = strip v'"
    using assms(3) by (simp add: getenv_def)
  show ?thesis
    using r f by (simp add: register_script_eq Let_def set_or_missing_def)
qed

theorem blank_repository_variable_blocks_fallback_witness:
  "env_blank_repo ''GITHUB_REPOSITORY'' = Some ''  '' \<and> all_space ''  ''
   \<and> env_blank_repo ''GITHUB_REPO'' = Some ''alice/bot'' \<and> ''alice/bot'' \<noteq> []
   \<and> register_script latin1_printable env_blank_repo (server_says 200 [] (Inl ValueError))
     = ([Print ''[register] Config state: SERVER_URL=set, GAME_TOKEN=set, PLAYER_NAME=set, GITHUB_REPO=missing'',
         StderrWrite (''GITHUB_REPO or GITHUB_REPOSITORY environment variable not set''
                      @ [newline])], 1)
   \<and> cfg_repo (env_blank_repo(''GITHUB_REPOSITORY'' := None)) = ''alice/bot''"
proof -
  have a: "env_blank_repo ''GITHUB_REPOSITORY'' = Some ''  ''"
    and c: "env_blank_repo ''GITHUB_REPO'' = Some ''alice/bot''"
    and d: "''alice/bot'' \<noteq> []"
    by simp_all
  note b = all_space_blank
  have s: "register_script latin1_printable env_blank_repo (server_says 200 [] (Inl ValueError))
     = ([Print ''[register] Config state: SERVER_URL=set, GAME_TOKEN=set, PLAYER_NAME=set, GITHUB_REPO=missing'',
         StderrWrite (''GITHUB_REPO or GITHUB_REPOSITORY environment variable not set''
                      @ [newline])], 1)"
    by (simp add: register_script_eq Let_def set_or_missing_def)
  show ?thesis
    using a b c d s blank_repository_variable_blocks_fallback
        [OF a b c d, of latin1_printable "server_says 200 [] (Inl ValueError)"]
    by simp
qed

text \<open>
  C10. The server URL, the token, the player name and the repository identifier are
  stripped of leading and trailing white space before they are tested and used. A value
  of white space only is fatal (exit status 1, no request), and the whole run is the one
  the same variable set to the empty string gives. When the configuration is accepted,
  exactly one request is sent, and its URL (trailing slashes of the stripped URL removed,
  \<open>/register\<close> appended), its \<open>Authorization\<close> header and its JSON body hold the
  stripped values; otherwise none is sent.
\<close>

theorem values_are_stripped_before_use:
  "(all_space (getenv env ''SERVER_URL'' []) \<or> all_space (getenv env ''GAME_TOKEN'' [])
    \<or> all_space (getenv env ''PLAYER_NAME'' ''encrypted-template'')
    \<or> all_space (getenv env ''GITHUB_REPOSITORY'' (getenv env ''GITHUB_REPO'' []))
    \<longrightarrow> snd (register_script printable env post) = 1
        \<and> posts (fst (register_script printable env post)) = [])
   \<and> (all_space v
        \<longrightarrow> register_script printable (env(k \<mapsto> v)) post
            = register_script printable (env(k \<mapsto> [])) post)
   \<and> posts (fst (register_script printable env post))
     = (if accepted env
        then [\<lparr> url = rstrip_slash (strip (getenv env ''SERVER_URL'' [])) @ ''/register'',
                headers = [(''Content-Type'', ''application/json''),
                           (''Authorization'', ''Bearer '' @ strip (getenv env ''GAME_TOKEN'' []))],
                body = [(''player_name'',
                         strip (getenv env ''PLAYER_NAME'' ''encrypted-template'')),
                        (''github_repo'',
                         strip (getenv env ''GITHUB_REPOSITORY'' (getenv env ''GITHUB_REPO'' [])))],
                timeout = 10 \<rparr>]
        else [])"
proof -
  have a: "all_space (getenv env ''SERVER_URL'' []) \<or> all_space (getenv env ''GAME_TOKEN'' [])
    \<or> all_space (getenv env ''PLAYER_NAME'' ''encrypted-template'')
    \<or> all_space (getenv env ''GITHUB_REPOSITORY'' (getenv env ''GITHUB_REPO'' []))
    \<Longrightarrow> \<not> accepted env"
    by (auto simp: all_space_strip)
  have b: "\<not> accepted env \<Longrightarrow> snd (register_script printable env post) = 1
           \<and> posts (fst (register_script printable env post)) = []"
    by (rule rejected_aux)
  show ?thesis
    using a b by (simp add: posts_register_script register_script_blank register_request_def)
qed

theorem values_are_stripped_before_use_witness:
  "all_space (getenv env_blank_repo ''GITHUB_REPOSITORY'' (getenv env_blank_repo ''GITHUB_REPO'' []))
   \<and> snd (register_script latin1_printable env_blank_repo
             (server_says 200 [] (Inl ValueError))) = 1
   \<and> posts (fst (register_script latin1_printable env_blank_repo
                    (server_says 200 [] (Inl ValueError)))) = []
   \<and> all_space ''  ''
   \<and> register_script latin1_printable (env_ok(''GAME_TOKEN'' \<mapsto> ''  ''))
         (server_says 200 [] (Inl ValueError))
     = register_script latin1_printable (env_ok(''GAME_TOKEN'' \<mapsto> []))
         (server_says 200 [] (Inl ValueError))
   \<and> getenv env_ok ''SERVER_URL'' [] = ''https://example.org/ ''
   \<and> getenv env_ok ''GAME_TOKEN'' [] = '' t0ken''
   \<and> accepted env_ok
   \<and> posts (fst (register_script latin1_printable env_ok (server_says 200 [] (Inl ValueError))))
     = [\<lparr> url = ''https://example.org/register'',
           headers = [(''Content-Type'', ''application/json''),
                      (''Authorization'', ''Bearer t0ken'')],
           body = [(''player_name'', ''encrypted-template''), (''github_repo'', ''alice/bot'')],
           timeout = 10 \<rparr>]"
proof -
  have a: "all_space (getenv env_blank_repo ''GITHUB_REPOSITORY''
                        (getenv env_blank_repo ''GITHUB_REPO'' []))"
    by (simp add: all_space_blank)
  have h: "accepted env_ok"
    by simp
  show ?thesis
    using a h all_space_blank
      values_are_stripped_before_use [of env_blank_repo latin1_printable
        "server_says 200 [] (Inl ValueError)" "''  ''"
        "''GAME_TOKEN''"]
      values_are_stripped_before_use [of env_ok latin1_printable
        "server_says 200 [] (Inl ValueError)" "''  ''"
        "''GAME_TOKEN''"]
    by simp
qed

text \<open>
  C5 at a failing payload: the server answers 200 with the JSON object
  \<open>{"status": 42}\<close>. The status is truthy and not a \<open>str\<close>, so \<open>.lower()\<close> raises
  \<open>AttributeError\<close>: the run ends with a traceback and exit status 1, and the payload is
  not printed. (\<open>report_payload_status\<close> above gives the three branches for a status that
  is a \<open>str\<close>, and the fallback for one that is missing or falsy.)
\<close>

theorem non_string_status_crashes:
  "accepted env_ok
   \<and> ok \<lparr> status_code = 200,
          body_text = ''{'' @ [dquote] @ ''status'' @ [dquote] @ '': 42}'',
          body_json = Inr (JDict [(''status'', JInt 42)]) \<rparr>
   \<and> register_script latin1_printable env_ok
       (server_says 200 (''{'' @ [dquote] @ ''status'' @ [dquote] @ '': 42}'')
          (Inr (JDict [(''status'', JInt 42)])))
     = ([Print ''[register] Config state: SERVER_URL=set, GAME_TOKEN=set, PLAYER_NAME=set, GITHUB_REPO=set'',
         Print ''[register] Using endpoint https://example.org/register'',
         Print ''[register] Configuring auto-trigger for repo: alice/bot'',
         Print ''[register] Using GAME_TOKEN for both authentication and workflow triggering'',
         HttpPost \<lparr> url = ''https://example.org/register'',
                    headers = [(''Content-Type'', ''application/json''),
                               (''Authorization'', ''Bearer t0ken'')],
                    body = [(''player_name'', ''encrypted-template''),
                            (''github_repo'', ''alice/bot'')],
                    timeout = 10 \<rparr>,
         Traceback AttributeError], 1)"
proof -
  have r: "interpreter_exit
             (read_response printable repo
                (server_says 200 content (Inr (JDict [(''status'', JInt 42)])) q))
           = ([Traceback AttributeError], 1)" for printable repo content q
    by (simp add: server_says_def read_response_def ok_def report_payload_status
        interpreter_exit_def)
  show ?thesis
    by (simp add: register_script_eq Let_def submit_exit r set_or_missing_def
        register_request_def ok_def)
qed

end
